theory Spec2Isabelle
  imports Main
begin

section \<open>JavaScript values used by the project store\<close>

text \<open>
  The store of \<^verbatim>\<open>src/core/stores/ProjectStore.js\<close> is plain JavaScript. The
  embedding keeps the parts of the language its operations depend on:

  \<^item> A \<^verbatim>\<open>Date\<close> object carries a time value, an integral number of milliseconds
    since the epoch, or \<^verbatim>\<open>NaN\<close> (an "Invalid Date"). It is an \<open>int option\<close>,
    \<open>None\<close> being the invalid date. The constructor \<^verbatim>\<open>new Date(n)\<close> clips: a time
    value beyond \<open>\<plusminus>8.64e15\<close> ms gives an invalid date.
  \<^item> A number is an integer or \<^verbatim>\<open>NaN\<close> (fractions and infinities are outside the model).
  \<^item> Strings are lists of code units; the accented letters of the French messages are
    written by their code (\<open>0xE9\<close> is e-acute, \<open>0xE2\<close> a-circumflex, \<open>0xC9\<close> E-acute).
  \<^item> \<^verbatim>\<open>Date.parse\<close> is implementation-defined on most strings, so the operations take
    it as a parameter \<open>parse\<close>; the clock reading \<open>now\<close> and the result \<open>uuid\<close> of
    \<^verbatim>\<open>uuidv4()\<close> are parameters too. One operation runs synchronously, and every
    \<^verbatim>\<open>new Date()\<close> and \<^verbatim>\<open>Date.now()\<close> inside it reads the same instant \<open>now\<close>.
\<close>

type_synonym date = "int option"

datatype number = Fin int | NaN

definition max_time :: int where
  "max_time = 8640000000000000"

definition day_ms :: int where
  "day_ms = 24 * 60 * 60 * 1000"

definition week_ms :: int where
  "week_ms = 7 * 24 * 60 * 60 * 1000"

text \<open>\<^verbatim>\<open>new Date(t)\<close> for a number \<open>t\<close>: the time value is clipped to the range of dates.\<close>

definition new_Date :: "int \<Rightarrow> date" where
  "new_Date t = (if \<bar>t\<bar> \<le> max_time then Some t else None)"

definition new_Date_num :: "number \<Rightarrow> date" where
  "new_Date_num n = (case n of NaN \<Rightarrow> None | Fin t \<Rightarrow> new_Date t)"

text \<open>\<^verbatim>\<open>new Date(s)\<close> for a string: whatever \<^verbatim>\<open>Date.parse\<close> recognises, clipped.\<close>

definition new_Date_str :: "(string \<Rightarrow> date) \<Rightarrow> string \<Rightarrow> date" where
  "new_Date_str parse s = (case parse s of None \<Rightarrow> None | Some t \<Rightarrow> new_Date t)"

text \<open>\<^verbatim>\<open>new Date()\<close>: the clock always gives a valid date.\<close>

definition current_Date :: "int \<Rightarrow> date" where
  "current_Date now = Some now"

text \<open>\<^verbatim>\<open>new Date(d.getTime() + k)\<close>; \<^verbatim>\<open>NaN + k\<close> is \<^verbatim>\<open>NaN\<close>.\<close>

definition date_plus :: "date \<Rightarrow> int \<Rightarrow> date" where
  "date_plus d k = (case d of None \<Rightarrow> None | Some t \<Rightarrow> new_Date (t + k))"

text \<open>\<^verbatim>\<open>isNaN(d.getTime())\<close>\<close>

definition isNaN_time :: "date \<Rightarrow> bool" where
  "isNaN_time d = (d = None)"

text \<open>
  \<^verbatim>\<open>a <= b\<close> on two \<^verbatim>\<open>Date\<close> objects compares their time values as numbers; a
  comparison with \<^verbatim>\<open>NaN\<close> is false.
\<close>

definition date_le :: "date \<Rightarrow> date \<Rightarrow> bool" where
  "date_le a b = (case (a, b) of (Some x, Some y) \<Rightarrow> x \<le> y | _ \<Rightarrow> False)"

datatype exn = Error string | RangeError string | TypeError string | SyntaxError string

fun message :: "exn \<Rightarrow> string" where
  "message (Error m) = m"
| "message (RangeError m) = m"
| "message (TypeError m) = m"
| "message (SyntaxError m) = m"

text \<open>\<^verbatim>\<open>d.toISOString()\<close> throws a \<^verbatim>\<open>RangeError\<close> on an invalid date (the message
  is the one of V8). Only the fact that it returns matters to the store: the text is logged.\<close>

definition toISOString_check :: "date \<Rightarrow> exn + unit" where
  "toISOString_check d = (case d of None \<Rightarrow> Inl (RangeError ''Invalid time value'') | Some _ \<Rightarrow> Inr ())"

text \<open>
  What a date-bearing field or argument can hold: a \<^verbatim>\<open>Date\<close> object, a string, a
  number, or nothing (\<^verbatim>\<open>undefined\<close> or \<^verbatim>\<open>null\<close>). Values of other types are
  outside the model.
\<close>

datatype date_value = DateObj date | DateStr string | DateNum number | NoDate

text \<open>JavaScript truthiness of such a value (\<^verbatim>\<open>if (updates.startDate)\<close>).\<close>

fun truthy_date_value :: "date_value \<Rightarrow> bool" where
  "truthy_date_value (DateObj _) = True"
| "truthy_date_value (DateStr s) = (s \<noteq> [])"
| "truthy_date_value (DateNum n) = (n \<noteq> NaN \<and> n \<noteq> Fin 0)"
| "truthy_date_value NoDate = False"

section \<open>The data model (the typedefs at the head of ProjectStore.js)\<close>

record dependency =
  dep_taskId :: string
  dep_type :: string

record task =
  t_id :: string
  t_name :: string
  t_description :: string
  t_startDate :: date_value
  t_endDate :: date_value
  t_completion :: number
  t_dependencies :: "dependency list"
  t_projectId :: string
  t_createdAt :: date_value
  t_updatedAt :: date_value

record project =
  p_id :: string
  p_name :: string
  p_description :: string
  p_tasks :: "task list"
  p_createdAt :: date_value
  p_updatedAt :: date_value

record store =
  projects :: "project list"
  currentProject :: "project option"
  loading :: bool
  error :: "string option"

definition initial_store :: store where
  "initial_store = \<lparr>projects = [], currentProject = None, loading = False, error = None\<rparr>"

text \<open>
  The argument of \<^verbatim>\<open>createTask\<close>: an object whose fields may be missing
  (\<open>None\<close>). \<^verbatim>\<open>dependencies\<close> is \<open>None\<close> when it is not an array.
\<close>

record task_data =
  td_name :: "string option"
  td_description :: "string option"
  td_startDate :: date_value
  td_endDate :: date_value
  td_completion :: "number option"
  td_dependencies :: "dependency list option"

text \<open>
  The \<^verbatim>\<open>updates\<close> object of \<^verbatim>\<open>updateTask\<close> and of
  \<^verbatim>\<open>updateProject\<close>: \<open>None\<close> is an absent key; a present key overwrites the
  field when the objects are spread.
\<close>

record task_updates =
  tu_id :: "string option"
  tu_name :: "string option"
  tu_description :: "string option"
  tu_startDate :: "date_value option"
  tu_endDate :: "date_value option"
  tu_completion :: "number option"
  tu_dependencies :: "dependency list option"
  tu_projectId :: "string option"
  tu_createdAt :: "date_value option"

record project_updates =
  pu_id :: "string option"
  pu_name :: "string option"
  pu_description :: "string option"
  pu_tasks :: "task list option"
  pu_createdAt :: "date_value option"

text \<open>An \<^verbatim>\<open>async\<close> operation ends fulfilled, or rejected with what it threw.\<close>

datatype outcome = Fulfilled | Rejected exn

section \<open>Project operations\<close>

definition createProject :: "int \<Rightarrow> string \<Rightarrow> string \<Rightarrow> string \<Rightarrow> store \<Rightarrow> outcome \<times> store" where
  "createProject now uuid name description s0 =
     (let s1 = s0\<lparr>loading := True, error := None\<rparr>;
          newProject = \<lparr>p_id = uuid, p_name = name, p_description = description, p_tasks = [],
                        p_createdAt = DateObj (current_Date now),
                        p_updatedAt = DateObj (current_Date now)\<rparr>
      in (Fulfilled,
          s1\<lparr>projects := projects s1 @ [newProject],
             currentProject := Some newProject,
             loading := False\<rparr>))"

text \<open>\<^verbatim>\<open>{ ...project, ...updates, updatedAt: new Date() }\<close>\<close>

definition merge_project :: "int \<Rightarrow> project \<Rightarrow> project_updates \<Rightarrow> project" where
  "merge_project now p u =
     \<lparr>p_id = (case pu_id u of None \<Rightarrow> p_id p | Some v \<Rightarrow> v),
      p_name = (case pu_name u of None \<Rightarrow> p_name p | Some v \<Rightarrow> v),
      p_description = (case pu_description u of None \<Rightarrow> p_description p | Some v \<Rightarrow> v),
      p_tasks = (case pu_tasks u of None \<Rightarrow> p_tasks p | Some v \<Rightarrow> v),
      p_createdAt = (case pu_createdAt u of None \<Rightarrow> p_createdAt p | Some v \<Rightarrow> v),
      p_updatedAt = DateObj (current_Date now)\<rparr>"

definition updateProject :: "int \<Rightarrow> string \<Rightarrow> project_updates \<Rightarrow> store \<Rightarrow> outcome \<times> store" where
  "updateProject now projectId updates s0 =
     (let s1 = s0\<lparr>loading := True, error := None\<rparr>;
          updatedProjects =
            map (\<lambda>project. if p_id project = projectId then merge_project now project updates
                            else project) (projects s1)
      in (Fulfilled,
          s1\<lparr>projects := updatedProjects,
             currentProject :=
               (case currentProject s1 of
                  None \<Rightarrow> None
                | Some cur \<Rightarrow>
                    if p_id cur = projectId
                    then find (\<lambda>p. p_id p = projectId) updatedProjects
                    else Some cur),
             loading := False\<rparr>))"

definition deleteProject :: "string \<Rightarrow> store \<Rightarrow> outcome \<times> store" where
  "deleteProject projectId s0 =
     (let s1 = s0\<lparr>loading := True, error := None\<rparr>
      in (Fulfilled,
          s1\<lparr>projects := filter (\<lambda>p. p_id p \<noteq> projectId) (projects s1),
             currentProject :=
               (case currentProject s1 of
                  None \<Rightarrow> None
                | Some cur \<Rightarrow> if p_id cur = projectId then None else Some cur),
             loading := False\<rparr>))"

definition select_failed :: string where
  "select_failed = [CHR 0xC9] @ ''chec de s'' @ [CHR 0xE9] @ ''lection du projet: ''"

definition project_not_found :: "string \<Rightarrow> string" where
  "project_not_found projectId = ''Projet avec ID '' @ projectId @ '' non trouv'' @ [CHR 0xE9]"

text \<open>\<^verbatim>\<open>selectProject\<close> is synchronous and swallows its own exception.\<close>

definition selectProject :: "string \<Rightarrow> store \<Rightarrow> store" where
  "selectProject projectId s =
     (case find (\<lambda>p. p_id p = projectId) (projects s) of
        None \<Rightarrow> s\<lparr>error := Some (select_failed @ project_not_found projectId)\<rparr>
      | Some project \<Rightarrow> s\<lparr>currentProject := Some project, error := None\<rparr>)"

definition clearError :: "store \<Rightarrow> store" where
  "clearError s = s\<lparr>error := None\<rparr>"

section \<open>Task operations\<close>

definition no_project_selected :: string where
  "no_project_selected = ''Aucun projet s'' @ [CHR 0xE9] @ ''lectionn'' @ [CHR 0xE9]"

definition create_task_failed :: string where
  "create_task_failed =
     [CHR 0xC9] @ ''chec de cr'' @ [CHR 0xE9] @ ''ation de la t'' @ [CHR 0xE2] @ ''che: ''"

definition default_task_name :: string where
  "default_task_name = ''Nouvelle t'' @ [CHR 0xE2] @ ''che''"

text \<open>
  The tail shared by the task operations: the rebuilt project replaces the entry of
  \<^verbatim>\<open>projects\<close> with its id and becomes \<^verbatim>\<open>currentProject\<close>.
\<close>

definition install_project :: "project \<Rightarrow> store \<Rightarrow> store" where
  "install_project updatedProject state =
     (let updatedProjects =
            map (\<lambda>p. if p_id p = p_id updatedProject then updatedProject else p) (projects state)
      in state\<lparr>projects := updatedProjects,
               currentProject := Some updatedProject,
               loading := False\<rparr>)"

text \<open>
  Lines 190--233 of \<^verbatim>\<open>createTask\<close>: conversion, validation and ordering of the two
  dates. No statement of the block throws on a \<open>date_value\<close>, so its
  \<^verbatim>\<open>catch\<close> branch is not reached.
\<close>

definition convert_task_date :: "(string \<Rightarrow> date) \<Rightarrow> date \<Rightarrow> date_value \<Rightarrow> date" where
  "convert_task_date parse dflt v =
     (case v of
        DateObj d \<Rightarrow> d
      | DateStr s \<Rightarrow> new_Date_str parse s
      | DateNum n \<Rightarrow> new_Date_num n
      | NoDate \<Rightarrow> dflt)"

definition process_dates :: "(string \<Rightarrow> date) \<Rightarrow> int \<Rightarrow> date_value \<Rightarrow> date_value \<Rightarrow> date \<times> date" where
  "process_dates parse now sd ed =
     (let startDate = convert_task_date parse (current_Date now) sd;
          endDate = convert_task_date parse (new_Date (now + week_ms)) ed;
          startDate = (if isNaN_time startDate then current_Date now else startDate);
          endDate = (if isNaN_time endDate then date_plus startDate week_ms else endDate);
          endDate = (if date_le endDate startDate then date_plus startDate day_ms else endDate)
      in (startDate, endDate))"

text \<open>\<^verbatim>\<open>Math.min(100, Math.max(0, taskData.completion || 0))\<close>\<close>

definition math_max :: "number \<Rightarrow> number \<Rightarrow> number" where
  "math_max a b = (case (a, b) of (Fin x, Fin y) \<Rightarrow> Fin (max x y) | _ \<Rightarrow> NaN)"

definition math_min :: "number \<Rightarrow> number \<Rightarrow> number" where
  "math_min a b = (case (a, b) of (Fin x, Fin y) \<Rightarrow> Fin (min x y) | _ \<Rightarrow> NaN)"

definition or_zero :: "number option \<Rightarrow> number" where
  "or_zero c = (case c of None \<Rightarrow> Fin 0 | Some NaN \<Rightarrow> Fin 0 | Some (Fin n) \<Rightarrow> Fin n)"

definition clamp_completion :: "number option \<Rightarrow> number" where
  "clamp_completion c = math_min (Fin 100) (math_max (Fin 0) (or_zero c))"

text \<open>\<^verbatim>\<open>x || dflt\<close> on an optional string: the empty string is falsy.\<close>

definition or_string :: "string option \<Rightarrow> string \<Rightarrow> string" where
  "or_string x dflt = (case x of None \<Rightarrow> dflt | Some s \<Rightarrow> if s = [] then dflt else s)"

text \<open>
  The updater that \<^verbatim>\<open>createTask\<close> passes to \<^verbatim>\<open>set\<close> (lines 257--277). Its first
  line returns the state as it is when no project is selected.
\<close>

definition add_task :: "int \<Rightarrow> task \<Rightarrow> store \<Rightarrow> store" where
  "add_task now newTask state =
     (case currentProject state of
        None \<Rightarrow> state
      | Some cur \<Rightarrow>
          install_project
            (cur\<lparr>p_tasks := p_tasks cur @ [newTask], p_updatedAt := DateObj (current_Date now)\<rparr>)
            state)"

text \<open>
  The \<^verbatim>\<open>try\<close> block of \<^verbatim>\<open>createTask\<close>, after the two flags are set. The log
  statement of lines 235--242 calls \<^verbatim>\<open>toISOString\<close> on the start date and then on
  the end date.
\<close>

definition createTask_body ::
  "(string \<Rightarrow> date) \<Rightarrow> int \<Rightarrow> string \<Rightarrow> task_data \<Rightarrow> store \<Rightarrow> exn + store" where
  "createTask_body parse now uuid taskData s1 =
     (case currentProject s1 of
        None \<Rightarrow> Inl (Error no_project_selected)
      | Some cur \<Rightarrow>
          (let (startDate, endDate) =
                 process_dates parse now (td_startDate taskData) (td_endDate taskData)
           in case toISOString_check startDate of
                Inl e \<Rightarrow> Inl e
              | Inr _ \<Rightarrow>
                 (case toISOString_check endDate of
                    Inl e \<Rightarrow> Inl e
                  | Inr _ \<Rightarrow>
                      Inr (add_task now
                        \<lparr>t_id = uuid,
                         t_name = or_string (td_name taskData) default_task_name,
                         t_description = or_string (td_description taskData) [],
                         t_startDate = DateObj startDate,
                         t_endDate = DateObj endDate,
                         t_completion = clamp_completion (td_completion taskData),
                         t_dependencies =
                           (case td_dependencies taskData of None \<Rightarrow> [] | Some ds \<Rightarrow> ds),
                         t_projectId = p_id cur,
                         t_createdAt = DateObj (current_Date now),
                         t_updatedAt = DateObj (current_Date now)\<rparr> s1))))"

text \<open>
  \<^verbatim>\<open>createTask\<close> with its \<^verbatim>\<open>catch\<close> (lines 278--284): the message of what was
  thrown goes into \<^verbatim>\<open>error\<close>, the loading flag is reset, and the exception is thrown
  again.
\<close>

definition createTask ::
  "(string \<Rightarrow> date) \<Rightarrow> int \<Rightarrow> string \<Rightarrow> task_data \<Rightarrow> store \<Rightarrow> outcome \<times> store" where
  "createTask parse now uuid taskData s0 =
     (let s1 = s0\<lparr>loading := True, error := None\<rparr>
      in case createTask_body parse now uuid taskData s1 of
           Inr s2 \<Rightarrow> (Fulfilled, s2)
         | Inl err \<Rightarrow>
             (Rejected err,
              s1\<lparr>error := Some (create_task_failed @ message err), loading := False\<rparr>))"

text \<open>
  Lines 302--339 of \<^verbatim>\<open>updateTask\<close>, for one of the two date keys of
  \<^verbatim>\<open>processedUpdates\<close>: a truthy value is converted, and the key is deleted when the
  conversion gives an invalid date; a falsy value (or an absent key) is left as it is.
\<close>

definition process_date_update :: "(string \<Rightarrow> date) \<Rightarrow> date_value option \<Rightarrow> date_value option" where
  "process_date_update parse u =
     (case u of
        None \<Rightarrow> None
      | Some v \<Rightarrow>
          if truthy_date_value v
          then (let d = (case v of
                           DateObj d \<Rightarrow> d
                         | DateStr s \<Rightarrow> new_Date_str parse s
                         | DateNum n \<Rightarrow> new_Date_num n
                         | NoDate \<Rightarrow> None)
                in if isNaN_time d then None else Some (DateObj d))
          else Some v)"

definition process_updates :: "(string \<Rightarrow> date) \<Rightarrow> task_updates \<Rightarrow> task_updates" where
  "process_updates parse updates =
     updates\<lparr>tu_startDate := process_date_update parse (tu_startDate updates),
             tu_endDate := process_date_update parse (tu_endDate updates)\<rparr>"

text \<open>\<^verbatim>\<open>{ ...task, ...processedUpdates, updatedAt: new Date() }\<close>\<close>

definition merge_task :: "int \<Rightarrow> task \<Rightarrow> task_updates \<Rightarrow> task" where
  "merge_task now t u =
     \<lparr>t_id = (case tu_id u of None \<Rightarrow> t_id t | Some v \<Rightarrow> v),
      t_name = (case tu_name u of None \<Rightarrow> t_name t | Some v \<Rightarrow> v),
      t_description = (case tu_description u of None \<Rightarrow> t_description t | Some v \<Rightarrow> v),
      t_startDate = (case tu_startDate u of None \<Rightarrow> t_startDate t | Some v \<Rightarrow> v),
      t_endDate = (case tu_endDate u of None \<Rightarrow> t_endDate t | Some v \<Rightarrow> v),
      t_completion = (case tu_completion u of None \<Rightarrow> t_completion t | Some v \<Rightarrow> v),
      t_dependencies = (case tu_dependencies u of None \<Rightarrow> t_dependencies t | Some v \<Rightarrow> v),
      t_projectId = (case tu_projectId u of None \<Rightarrow> t_projectId t | Some v \<Rightarrow> v),
      t_createdAt = (case tu_createdAt u of None \<Rightarrow> t_createdAt t | Some v \<Rightarrow> v),
      t_updatedAt = DateObj (current_Date now)\<rparr>"

text \<open>
  The other task operations have the frame of \<^verbatim>\<open>createTask\<close>. Nothing runs between
  their guard on \<^verbatim>\<open>get().currentProject\<close> and the updater they pass to \<^verbatim>\<open>set\<close>,
  so the updater sees the project that the guard found, and that is the project rebuilt
  below.
\<close>

definition update_task_failed :: string where
  "update_task_failed =
     [CHR 0xC9] @ ''chec de mise '' @ [CHR 0xE0] @ '' jour de la t'' @ [CHR 0xE2] @ ''che: ''"

definition updateTask ::
  "(string \<Rightarrow> date) \<Rightarrow> int \<Rightarrow> string \<Rightarrow> task_updates \<Rightarrow> store \<Rightarrow> outcome \<times> store" where
  "updateTask parse now taskId updates s0 =
     (let s1 = s0\<lparr>loading := True, error := None\<rparr>
      in case currentProject s1 of
           None \<Rightarrow>
             (Rejected (Error no_project_selected),
              s1\<lparr>error := Some (update_task_failed @ no_project_selected), loading := False\<rparr>)
         | Some cur \<Rightarrow>
             (let processedUpdates = process_updates parse updates;
                  updatedTasks =
                    map (\<lambda>task. if t_id task = taskId then merge_task now task processedUpdates
                                 else task) (p_tasks cur)
              in (Fulfilled,
                  install_project
                    (cur\<lparr>p_tasks := updatedTasks, p_updatedAt := DateObj (current_Date now)\<rparr>)
                    s1)))"

definition delete_task_failed :: string where
  "delete_task_failed =
     [CHR 0xC9] @ ''chec de suppression de la t'' @ [CHR 0xE2] @ ''che: ''"

definition deleteTask :: "int \<Rightarrow> string \<Rightarrow> store \<Rightarrow> outcome \<times> store" where
  "deleteTask now taskId s0 =
     (let s1 = s0\<lparr>loading := True, error := None\<rparr>
      in case currentProject s1 of
           None \<Rightarrow>
             (Rejected (Error no_project_selected),
              s1\<lparr>error := Some (delete_task_failed @ no_project_selected), loading := False\<rparr>)
         | Some cur \<Rightarrow>
             (let updatedTasks = filter (\<lambda>task. t_id task \<noteq> taskId) (p_tasks cur);
                  cleanedTasks =
                    map (\<lambda>task. task\<lparr>t_dependencies :=
                                   filter (\<lambda>dep. dep_taskId dep \<noteq> taskId) (t_dependencies task)\<rparr>)
                        updatedTasks
              in (Fulfilled,
                  install_project
                    (cur\<lparr>p_tasks := cleanedTasks, p_updatedAt := DateObj (current_Date now)\<rparr>)
                    s1)))"

definition add_dependency_failed :: string where
  "add_dependency_failed =
     [CHR 0xC9] @ ''chec d'' @ [CHR 0x27] @ ''ajout de d'' @ [CHR 0xE9] @ ''pendance: ''"

text \<open>The function mapped over the tasks by \<^verbatim>\<open>addDependency\<close> (lines 450--465).\<close>

definition add_dependency_to_task :: "int \<Rightarrow> string \<Rightarrow> dependency \<Rightarrow> task \<Rightarrow> task" where
  "add_dependency_to_task now taskId dep task =
     (if t_id task \<noteq> taskId then task
      else (case find (\<lambda>d. dep_taskId d = dep_taskId dep \<and> dep_type d = dep_type dep)
                      (t_dependencies task) of
              Some existingDep \<Rightarrow> task
            | None \<Rightarrow>
                task\<lparr>t_dependencies := t_dependencies task @ [dep],
                      t_updatedAt := DateObj (current_Date now)\<rparr>))"

definition addDependency :: "int \<Rightarrow> string \<Rightarrow> dependency \<Rightarrow> store \<Rightarrow> outcome \<times> store" where
  "addDependency now taskId dep s0 =
     (let s1 = s0\<lparr>loading := True, error := None\<rparr>
      in case currentProject s1 of
           None \<Rightarrow>
             (Rejected (Error no_project_selected),
              s1\<lparr>error := Some (add_dependency_failed @ no_project_selected), loading := False\<rparr>)
         | Some cur \<Rightarrow>
             (let updatedTasks = map (add_dependency_to_task now taskId dep) (p_tasks cur)
              in (Fulfilled,
                  install_project
                    (cur\<lparr>p_tasks := updatedTasks, p_updatedAt := DateObj (current_Date now)\<rparr>)
                    s1)))"

definition remove_dependency_failed :: string where
  "remove_dependency_failed =
     [CHR 0xC9] @ ''chec de suppression de d'' @ [CHR 0xE9] @ ''pendance: ''"

definition removeDependency :: "int \<Rightarrow> string \<Rightarrow> string \<Rightarrow> store \<Rightarrow> outcome \<times> store" where
  "removeDependency now taskId dependencyTaskId s0 =
     (let s1 = s0\<lparr>loading := True, error := None\<rparr>
      in case currentProject s1 of
           None \<Rightarrow>
             (Rejected (Error no_project_selected),
              s1\<lparr>error := Some (remove_dependency_failed @ no_project_selected), loading := False\<rparr>)
         | Some cur \<Rightarrow>
             (let updatedTasks =
                    map (\<lambda>task.
                           if t_id task \<noteq> taskId then task
                           else task\<lparr>t_dependencies :=
                                       filter (\<lambda>d. dep_taskId d \<noteq> dependencyTaskId)
                                              (t_dependencies task),
                                     t_updatedAt := DateObj (current_Date now)\<rparr>)
                        (p_tasks cur)
              in (Fulfilled,
                  install_project
                    (cur\<lparr>p_tasks := updatedTasks, p_updatedAt := DateObj (current_Date now)\<rparr>)
                    s1)))"

text \<open>The tasks of a store: those of every project, and those of the current project.\<close>

definition store_tasks :: "store \<Rightarrow> task list" where
  "store_tasks s =
     concat (map p_tasks (projects s)) @
     (case currentProject s of None \<Rightarrow> [] | Some cur \<Rightarrow> p_tasks cur)"

text \<open>A task's two dates are valid \<^verbatim>\<open>Date\<close> objects and the end is strictly later.\<close>

definition dates_ordered :: "task \<Rightarrow> bool" where
  "dates_ordered t =
     (case (t_startDate t, t_endDate t) of
        (DateObj (Some a), DateObj (Some b)) \<Rightarrow> a < b
      | _ \<Rightarrow> False)"

definition completion_in_bounds :: "task \<Rightarrow> bool" where
  "completion_in_bounds t = (case t_completion t of Fin n \<Rightarrow> 0 \<le> n \<and> n \<le> 100 | NaN \<Rightarrow> False)"

text \<open>The tasks of the current project, and the absence of a task id from a list of tasks
  (as the id of a task, and as the target of a dependency).\<close>

definition current_tasks :: "store \<Rightarrow> task list" where
  "current_tasks s = (case currentProject s of None \<Rightarrow> [] | Some cur \<Rightarrow> p_tasks cur)"

definition no_reference_to :: "string \<Rightarrow> task list \<Rightarrow> bool" where
  "no_reference_to taskId ts =
     list_all (\<lambda>task. t_id task \<noteq> taskId \<and>
                      list_all (\<lambda>dep. dep_taskId dep \<noteq> taskId) (t_dependencies task)) ts"

section \<open>The date policy of task creation, in the words of the specification\<close>

text \<open>
  A missing or invalid start date becomes the current time. A missing end date becomes the
  date seven days ahead of the current time, an invalid one the start date plus seven
  days; and an end date that is not later than the start date becomes the start date plus
  one day.
\<close>

definition policy_startDate :: "(string \<Rightarrow> date) \<Rightarrow> int \<Rightarrow> date_value \<Rightarrow> int" where
  "policy_startDate parse now sd =
     (case sd of
        NoDate \<Rightarrow> now
      | DateObj d \<Rightarrow> (case d of None \<Rightarrow> now | Some t \<Rightarrow> t)
      | DateStr s \<Rightarrow> (case new_Date_str parse s of None \<Rightarrow> now | Some t \<Rightarrow> t)
      | DateNum n \<Rightarrow> (case new_Date_num n of None \<Rightarrow> now | Some t \<Rightarrow> t))"

definition policy_endDate :: "(string \<Rightarrow> date) \<Rightarrow> int \<Rightarrow> int \<Rightarrow> date_value \<Rightarrow> int" where
  "policy_endDate parse now start ed =
     (let resolved =
            (case ed of
               NoDate \<Rightarrow> now + week_ms
             | DateObj d \<Rightarrow> (case d of None \<Rightarrow> start + week_ms | Some t \<Rightarrow> t)
             | DateStr s \<Rightarrow> (case new_Date_str parse s of None \<Rightarrow> start + week_ms | Some t \<Rightarrow> t)
             | DateNum n \<Rightarrow> (case new_Date_num n of None \<Rightarrow> start + week_ms | Some t \<Rightarrow> t))
      in if resolved \<le> start then start + day_ms else resolved)"

section \<open>Sequences of store operations\<close>

text \<open>
  The operations a view can call, with the clock reading and the generated identifier
  of each call. \<^verbatim>\<open>run\<close> applies a sequence of them; an operation that is rejected
  leaves its error in the store and the sequence goes on.
\<close>

datatype operation =
    CreateProject int string string string
  | UpdateProject int string project_updates
  | DeleteProject string
  | SelectProject string
  | CreateTask int string task_data
  | UpdateTask int string task_updates
  | DeleteTask int string
  | AddDependency int string dependency
  | RemoveDependency int string string
  | ClearError

fun apply_operation :: "(string \<Rightarrow> date) \<Rightarrow> operation \<Rightarrow> store \<Rightarrow> store" where
  "apply_operation parse (CreateProject now uuid name description) s =
     snd (createProject now uuid name description s)"
| "apply_operation parse (UpdateProject now projectId updates) s =
     snd (updateProject now projectId updates s)"
| "apply_operation parse (DeleteProject projectId) s = snd (deleteProject projectId s)"
| "apply_operation parse (SelectProject projectId) s = selectProject projectId s"
| "apply_operation parse (CreateTask now uuid taskData) s =
     snd (createTask parse now uuid taskData s)"
| "apply_operation parse (UpdateTask now taskId updates) s =
     snd (updateTask parse now taskId updates s)"
| "apply_operation parse (DeleteTask now taskId) s = snd (deleteTask now taskId s)"
| "apply_operation parse (AddDependency now taskId dep) s = snd (addDependency now taskId dep s)"
| "apply_operation parse (RemoveDependency now taskId dependencyTaskId) s =
     snd (removeDependency now taskId dependencyTaskId s)"
| "apply_operation parse ClearError s = clearError s"

fun run :: "(string \<Rightarrow> date) \<Rightarrow> operation list \<Rightarrow> store \<Rightarrow> store" where
  "run parse [] s = s"
| "run parse (operation # rest) s = run parse rest (apply_operation parse operation s)"

text \<open>\<^verbatim>\<open>uuidv4()\<close> returns an identifier that no project of the store has.\<close>

fun fresh_uuid :: "operation \<Rightarrow> store \<Rightarrow> bool" where
  "fresh_uuid (CreateProject now uuid name description) s = (uuid \<notin> set (map p_id (projects s)))"
| "fresh_uuid _ s = True"

fun fresh_uuids :: "(string \<Rightarrow> date) \<Rightarrow> operation list \<Rightarrow> store \<Rightarrow> bool" where
  "fresh_uuids parse [] s = True"
| "fresh_uuids parse (operation # rest) s =
     (fresh_uuid operation s \<and> fresh_uuids parse rest (apply_operation parse operation s))"

text \<open>An update of a project that does not give it another id.\<close>

fun keeps_project_id :: "operation \<Rightarrow> bool" where
  "keeps_project_id (UpdateProject now projectId updates) =
     (case pu_id updates of None \<Rightarrow> True | Some newId \<Rightarrow> newId = projectId)"
| "keeps_project_id _ = True"

text \<open>The current project is the one and only entry of \<^verbatim>\<open>projects\<close> with its id.\<close>

definition current_in_sync :: "store \<Rightarrow> bool" where
  "current_in_sync s =
     (case currentProject s of
        None \<Rightarrow> True
      | Some cur \<Rightarrow> filter (\<lambda>p. p_id p = p_id cur) (projects s) = [cur])"

text \<open>A project is installed: it is the current project and the one and only entry of
  \<^verbatim>\<open>projects\<close> with its id.\<close>

definition installed :: "project \<Rightarrow> store \<Rightarrow> bool" where
  "installed p s =
     (currentProject s = Some p \<and> filter (\<lambda>q. p_id q = p_id p) (projects s) = [p])"

text \<open>The invariant behind both: ids are distinct, and the current project is an entry.\<close>

definition store_inv :: "store \<Rightarrow> bool" where
  "store_inv s =
     (distinct (map p_id (projects s)) \<and>
      (case currentProject s of None \<Rightarrow> True | Some cur \<Rightarrow> cur \<in> set (projects s)))"

section \<open>Values of the persistence layer\<close>

text \<open>
  \<^verbatim>\<open>serialize\<close>, \<^verbatim>\<open>deserialize\<close> and the start-up migration walk object graphs
  without regard to their shape, so here a value is untyped: a primitive, a
  \<^verbatim>\<open>Date\<close>, an array, or a plain object, which is the list of its own enumerable
  properties in insertion order (keys are distinct).
\<close>

datatype jv =
    JUndefined
  | JNull
  | JBool bool
  | JNum number
  | JBigInt int
  | JStr string
  | JDate date
  | JArr "jv list"
  | JObj "(string \<times> jv) list"

text \<open>Truthiness, and \<^verbatim>\<open>typeof v === 'object'\<close> for a truthy \<open>v\<close>.\<close>

fun truthy :: "jv \<Rightarrow> bool" where
  "truthy JUndefined = False"
| "truthy JNull = False"
| "truthy (JBool b) = b"
| "truthy (JNum n) = (n \<noteq> NaN \<and> n \<noteq> Fin 0)"
| "truthy (JBigInt n) = (n \<noteq> 0)"
| "truthy (JStr s) = (s \<noteq> [])"
| "truthy (JDate d) = True"
| "truthy (JArr xs) = True"
| "truthy (JObj kvs) = True"

fun is_object :: "jv \<Rightarrow> bool" where
  "is_object (JDate d) = True"
| "is_object (JArr xs) = True"
| "is_object (JObj kvs) = True"
| "is_object _ = False"

text \<open>
  \<^verbatim>\<open>{ ...obj }\<close> copies the own enumerable properties. A \<^verbatim>\<open>Date\<close> has none (its
  time value is an internal slot), so spreading a \<^verbatim>\<open>Date\<close> gives the empty object.
\<close>

fun own_props :: "jv \<Rightarrow> (string \<times> jv) list" where
  "own_props (JObj kvs) = kvs"
| "own_props _ = []"

text \<open>\<^verbatim>\<open>obj[key]\<close> and \<^verbatim>\<open>obj[key] = v\<close> on the property list of an object.\<close>

definition get_own :: "(string \<times> jv) list \<Rightarrow> string \<Rightarrow> jv" where
  "get_own kvs key = (case map_of kvs key of None \<Rightarrow> JUndefined | Some v \<Rightarrow> v)"

fun set_own :: "string \<Rightarrow> jv \<Rightarrow> (string \<times> jv) list \<Rightarrow> (string \<times> jv) list" where
  "set_own key v [] = [(key, v)]"
| "set_own key v ((k, w) # kvs) = (if k = key then (k, v) # kvs else (k, w) # set_own key v kvs)"

definition dateFields :: "string list" where
  "dateFields = [''createdAt'', ''updatedAt'', ''startDate'', ''endDate'']"

text \<open>The default that the three walkers give a date field, by the name of the field.\<close>

definition assign_default :: "int \<Rightarrow> (string \<times> jv) list \<Rightarrow> string \<Rightarrow> (string \<times> jv) list" where
  "assign_default now obj field =
     (if field = ''createdAt'' \<or> field = ''updatedAt''
      then set_own field (JDate (current_Date now)) obj
      else if field = ''startDate''
      then set_own field (JDate (current_Date now)) obj
      else if field = ''endDate''
      then set_own field (JDate (new_Date (now + week_ms))) obj
      else obj)"

subsection \<open>serialize (lines 804--855)\<close>

text \<open>The body of the first \<^verbatim>\<open>forEach\<close>: an invalid \<^verbatim>\<open>Date\<close> in a date field is
  replaced by the default.\<close>

definition validate_field :: "int \<Rightarrow> (string \<times> jv) list \<Rightarrow> string \<Rightarrow> (string \<times> jv) list" where
  "validate_field now processed field =
     (case get_own processed field of
        JDate d \<Rightarrow> if isNaN_time d then assign_default now processed field else processed
      | _ \<Rightarrow> processed)"

text \<open>Facts for the termination of the walkers: a date field is replaced by a leaf.\<close>

lemma set_own_elems:
  "(k, v) \<in> set (set_own key x kvs) \<Longrightarrow> (k, v) \<in> set kvs \<or> v = x"
  by (induction kvs) (auto split: if_splits)

lemma assign_default_elems:
  "(k, v) \<in> set (assign_default now kvs field) \<Longrightarrow> (k, v) \<in> set kvs \<or> size v = 0"
  by (auto simp: assign_default_def dest!: set_own_elems split: if_splits)

lemma validate_field_empty [simp]: "validate_field now [] field = []"
  by (simp add: validate_field_def get_own_def)

lemma validate_field_elems:
  "(k, v) \<in> set (validate_field now kvs field) \<Longrightarrow> (k, v) \<in> set kvs \<or> size v = 0"
  by (auto simp: validate_field_def dest: assign_default_elems split: jv.splits if_splits)

lemma foldl_validate_empty [simp]: "foldl (validate_field now) [] fs = []"
  by (induction fs) simp_all

lemma foldl_validate_elems:
  "(k, v) \<in> set (foldl (validate_field now) kvs fs) \<Longrightarrow> (k, v) \<in> set kvs \<or> size v = 0"
proof (induction fs arbitrary: kvs)
  case Nil
  then show ?case by simp
next
  case (Cons f fs)
  from Cons.IH [of "validate_field now kvs f"] Cons.prems
  show ?case by (auto dest: validate_field_elems)
qed

lemma size_prop_less: "(k, v) \<in> set kvs \<Longrightarrow> size v < Suc (size_list (size_prod (\<lambda>x. 0) size) kvs)"
  by (induction kvs) auto

lemma validated_prop_smaller:
  "(k, v) \<in> set (foldl (validate_field now) kvs fs) \<Longrightarrow>
   size v < Suc (size_list (size_prod (\<lambda>x. 0) size) kvs)"
  by (auto dest: foldl_validate_elems size_prop_less)

text \<open>
  \<^verbatim>\<open>processForSerialization\<close>: arrays are mapped; any other truthy object is spread,
  its date fields are validated, and then every property whose value is a truthy object
  is replaced by its own processing. A \<^verbatim>\<open>Date\<close> is such a value.
\<close>

function processForSerialization :: "int \<Rightarrow> jv \<Rightarrow> jv" where
  "processForSerialization now obj =
     (if truthy obj \<and> is_object obj
      then (case obj of
              JArr xs \<Rightarrow> JArr (map (processForSerialization now) xs)
            | _ \<Rightarrow>
                JObj (map (\<lambda>(key, v).
                             (key, if truthy v \<and> is_object v then processForSerialization now v else v))
                          (foldl (validate_field now) (own_props obj) dateFields)))
      else obj)"
  by pat_completeness auto
termination
proof (relation "measure (\<lambda>(now, obj). size obj)")
  show "wf (measure (\<lambda>(now, obj). size obj))" by simp
next
  fix now :: int and obj :: jv and xs x
  assume "obj = JArr xs" and "x \<in> set xs"
  then show "((now, x), now, obj) \<in> measure (\<lambda>(now, obj). size obj)"
    by (simp add: size_list_estimation' less_Suc_eq_le)
qed (auto dest: validated_prop_smaller)

text \<open>Mapping a function that may throw over a list: the first exception ends the loop.\<close>

fun map_exn :: "('a \<Rightarrow> exn + 'b) \<Rightarrow> 'a list \<Rightarrow> exn + 'b list" where
  "map_exn f [] = Inr []"
| "map_exn f (x # xs) =
     (case f x of
        Inl e \<Rightarrow> Inl e
      | Inr y \<Rightarrow> (case map_exn f xs of Inl e \<Rightarrow> Inl e | Inr ys \<Rightarrow> Inr (y # ys)))"

lemma map_exn_cong [fundef_cong]:
  "xs = ys \<Longrightarrow> (\<And>x. x \<in> set ys \<Longrightarrow> f x = g x) \<Longrightarrow> map_exn f xs = map_exn g ys"
  by (induction ys arbitrary: xs) (auto split: sum.splits)

text \<open>
  A JSON document. The string that \<^verbatim>\<open>JSON.stringify\<close> returns is modelled by the
  document it denotes: \<^verbatim>\<open>undefined\<close> has no text (\<open>None\<close>), a property whose value
  is \<^verbatim>\<open>undefined\<close> is left out and an array element \<^verbatim>\<open>undefined\<close> becomes
  \<^verbatim>\<open>null\<close>, \<^verbatim>\<open>NaN\<close> becomes \<^verbatim>\<open>null\<close>, a valid \<^verbatim>\<open>Date\<close> becomes its ISO
  string (\<open>toISO\<close>, a parameter) and an invalid one \<^verbatim>\<open>null\<close>, and a \<^verbatim>\<open>BigInt\<close>
  makes \<^verbatim>\<open>JSON.stringify\<close> throw a \<^verbatim>\<open>TypeError\<close>.
\<close>

datatype json =
    JsonNull
  | JsonBool bool
  | JsonNum int
  | JsonStr string
  | JsonArr "json list"
  | JsonObj "(string \<times> json) list"

fun stringify :: "(int \<Rightarrow> string) \<Rightarrow> jv \<Rightarrow> exn + json option" where
  "stringify toISO JUndefined = Inr None"
| "stringify toISO JNull = Inr (Some JsonNull)"
| "stringify toISO (JBool b) = Inr (Some (JsonBool b))"
| "stringify toISO (JNum n) = Inr (Some (case n of NaN \<Rightarrow> JsonNull | Fin i \<Rightarrow> JsonNum i))"
| "stringify toISO (JBigInt n) = Inl (TypeError ''Do not know how to serialize a BigInt'')"
| "stringify toISO (JStr s) = Inr (Some (JsonStr s))"
| "stringify toISO (JDate d) = Inr (Some (case d of None \<Rightarrow> JsonNull | Some t \<Rightarrow> JsonStr (toISO t)))"
| "stringify toISO (JArr xs) =
     (case map_exn (stringify toISO) xs of
        Inl e \<Rightarrow> Inl e
      | Inr js \<Rightarrow> Inr (Some (JsonArr (map (\<lambda>j. case j of None \<Rightarrow> JsonNull | Some x \<Rightarrow> x) js))))"
| "stringify toISO (JObj kvs) =
     (case map_exn (\<lambda>(key, v). case stringify toISO v of Inl e \<Rightarrow> Inl e | Inr j \<Rightarrow> Inr (key, j)) kvs of
        Inl e \<Rightarrow> Inl e
      | Inr ps \<Rightarrow>
          Inr (Some (JsonObj (concat (map (\<lambda>(key, j). case j of None \<Rightarrow> [] | Some x \<Rightarrow> [(key, x)]) ps)))))"

text \<open>
  A stored string is empty, or it is not JSON, or it denotes a document;
  \<^verbatim>\<open>JSON.parse\<close> throws a \<^verbatim>\<open>SyntaxError\<close> on the first two.
\<close>

datatype stored_string = EmptyString | Malformed | Document json

fun json_value :: "json \<Rightarrow> jv" where
  "json_value JsonNull = JNull"
| "json_value (JsonBool b) = JBool b"
| "json_value (JsonNum i) = JNum (Fin i)"
| "json_value (JsonStr s) = JStr s"
| "json_value (JsonArr js) = JArr (map json_value js)"
| "json_value (JsonObj ps) = JObj (map (\<lambda>(key, j). (key, json_value j)) ps)"

fun JSON_parse :: "stored_string \<Rightarrow> exn + jv" where
  "JSON_parse EmptyString = Inl (SyntaxError ''Unexpected end of JSON input'')"
| "JSON_parse Malformed = Inl (SyntaxError ''Unexpected token'')"
| "JSON_parse (Document j) = Inr (json_value j)"

text \<open>\<^verbatim>\<open>{ projects: [], currentProject: null }\<close>, as a value and as a document.\<close>

definition empty_state :: jv where
  "empty_state = JObj [(''projects'', JArr []), (''currentProject'', JNull)]"

definition empty_state_json :: json where
  "empty_state_json = JsonObj [(''projects'', JsonArr []), (''currentProject'', JsonNull)]"

text \<open>The \<^verbatim>\<open>try\<close> block of \<^verbatim>\<open>serialize\<close>, and \<^verbatim>\<open>serialize\<close> with its
  \<^verbatim>\<open>catch\<close>.\<close>

definition serialize_try :: "(int \<Rightarrow> string) \<Rightarrow> int \<Rightarrow> jv \<Rightarrow> exn + json option" where
  "serialize_try toISO now state = stringify toISO (processForSerialization now state)"

definition serialize :: "(int \<Rightarrow> string) \<Rightarrow> int \<Rightarrow> jv \<Rightarrow> json option" where
  "serialize toISO now state =
     (case serialize_try toISO now state of
        Inr str \<Rightarrow> str
      | Inl err \<Rightarrow>
          (case stringify toISO empty_state of Inr str \<Rightarrow> str | Inl err' \<Rightarrow> None))"

subsection \<open>deserialize (lines 856--939)\<close>

text \<open>The body of the \<^verbatim>\<open>forEach\<close> over the date fields: a non-empty string is
  converted, to the date it parses to or to the default.\<close>

definition convert_field ::
  "(string \<Rightarrow> date) \<Rightarrow> int \<Rightarrow> (string \<times> jv) list \<Rightarrow> string \<Rightarrow> (string \<times> jv) list" where
  "convert_field parse now converted field =
     (case get_own converted field of
        JStr s \<Rightarrow>
          if s \<noteq> []
          then (case new_Date_str parse s of
                  Some t \<Rightarrow> set_own field (JDate (Some t)) converted
                | None \<Rightarrow> assign_default now converted field)
          else converted
      | _ \<Rightarrow> converted)"

text \<open>
  \<^verbatim>\<open>v instanceof Date ? v : new Date(v)\<close>. A primitive is converted to a number or
  parsed; \<^verbatim>\<open>new Date\<close> of a \<^verbatim>\<open>BigInt\<close> throws a \<^verbatim>\<open>TypeError\<close>; an array or
  a plain object goes through its string form, and the time value this gives is the
  parameter \<open>object_time\<close>.
\<close>

fun as_Date :: "(string \<Rightarrow> date) \<Rightarrow> (jv \<Rightarrow> date) \<Rightarrow> jv \<Rightarrow> exn + date" where
  "as_Date parse object_time (JDate d) = Inr d"
| "as_Date parse object_time JUndefined = Inr None"
| "as_Date parse object_time JNull = Inr (new_Date 0)"
| "as_Date parse object_time (JBool b) = Inr (new_Date (if b then 1 else 0))"
| "as_Date parse object_time (JNum n) = Inr (new_Date_num n)"
| "as_Date parse object_time (JBigInt n) =
     Inl (TypeError ''Cannot convert a BigInt value to a number'')"
| "as_Date parse object_time (JStr s) = Inr (new_Date_str parse s)"
| "as_Date parse object_time (JArr xs) = Inr (object_time (JArr xs))"
| "as_Date parse object_time (JObj kvs) = Inr (object_time (JObj kvs))"

text \<open>Lines 903--914: when both dates are truthy and the end is not after the start, the
  end becomes the start plus one day.\<close>

definition order_dates ::
  "(string \<Rightarrow> date) \<Rightarrow> (jv \<Rightarrow> date) \<Rightarrow> (string \<times> jv) list \<Rightarrow> exn + (string \<times> jv) list" where
  "order_dates parse object_time converted =
     (if truthy (get_own converted ''startDate'') \<and> truthy (get_own converted ''endDate'')
      then (case as_Date parse object_time (get_own converted ''startDate'') of
              Inl e \<Rightarrow> Inl e
            | Inr startDate \<Rightarrow>
                (case as_Date parse object_time (get_own converted ''endDate'') of
                   Inl e \<Rightarrow> Inl e
                 | Inr endDate \<Rightarrow>
                     Inr (if date_le endDate startDate
                          then set_own ''endDate'' (JDate (date_plus startDate day_ms)) converted
                          else converted)))
      else Inr converted)"

lemma convert_field_empty [simp]: "convert_field parse now [] field = []"
  by (simp add: convert_field_def get_own_def)

lemma foldl_convert_empty [simp]: "foldl (convert_field parse now) [] fs = []"
  by (induction fs) simp_all

lemma convert_field_elems:
  "(k, v) \<in> set (convert_field parse now kvs field) \<Longrightarrow> (k, v) \<in> set kvs \<or> size v = 0"
  by (auto simp: convert_field_def dest: assign_default_elems dest!: set_own_elems
           split: jv.splits if_splits option.splits)

lemma foldl_convert_elems:
  "(k, v) \<in> set (foldl (convert_field parse now) kvs fs) \<Longrightarrow> (k, v) \<in> set kvs \<or> size v = 0"
proof (induction fs arbitrary: kvs)
  case Nil
  then show ?case by simp
next
  case (Cons f fs)
  from Cons.IH [of "convert_field parse now kvs f"] Cons.prems
  show ?case by (auto dest: convert_field_elems)
qed

lemma order_dates_empty [simp]: "order_dates parse object_time [] = Inr []"
  by (simp add: order_dates_def get_own_def)

lemma order_dates_elems:
  "order_dates parse object_time kvs = Inr kvs' \<Longrightarrow> (k, v) \<in> set kvs' \<Longrightarrow>
   (k, v) \<in> set kvs \<or> size v = 0"
  by (auto simp: order_dates_def dest!: set_own_elems split: if_splits sum.splits)

lemma converted_prop_smaller:
  "order_dates parse object_time (foldl (convert_field parse now) kvs fs) = Inr kvs' \<Longrightarrow>
   (k, v) \<in> set kvs' \<Longrightarrow> size v < Suc (size_list (size_prod (\<lambda>x. 0) size) kvs)"
  by (auto dest!: order_dates_elems foldl_convert_elems dest: size_prop_less)

text \<open>
  \<^verbatim>\<open>convertDates\<close> has the shape of \<^verbatim>\<open>processForSerialization\<close>: after the two
  steps above, every property whose value is a truthy object, the \<^verbatim>\<open>Date\<close> objects
  just made among them, is replaced by its own conversion.
\<close>

function convertDates :: "(string \<Rightarrow> date) \<Rightarrow> (jv \<Rightarrow> date) \<Rightarrow> int \<Rightarrow> jv \<Rightarrow> exn + jv" where
  "convertDates parse object_time now obj =
     (if truthy obj \<and> is_object obj
      then (case obj of
              JArr xs \<Rightarrow>
                (case map_exn (convertDates parse object_time now) xs of
                   Inl e \<Rightarrow> Inl e
                 | Inr ys \<Rightarrow> Inr (JArr ys))
            | _ \<Rightarrow>
                (case order_dates parse object_time
                        (foldl (convert_field parse now) (own_props obj) dateFields) of
                   Inl e \<Rightarrow> Inl e
                 | Inr converted \<Rightarrow>
                     (case map_exn
                             (\<lambda>(key, v).
                                if truthy v \<and> is_object v
                                then (case convertDates parse object_time now v of
                                        Inl e \<Rightarrow> Inl e
                                      | Inr v' \<Rightarrow> Inr (key, v'))
                                else Inr (key, v))
                             converted of
                        Inl e \<Rightarrow> Inl e
                      | Inr props \<Rightarrow> Inr (JObj props))))
      else Inr obj)"
  by pat_completeness auto
termination
proof (relation "measure (\<lambda>(parse, object_time, now, obj). size obj)")
  show "wf (measure (\<lambda>(parse, object_time, now, obj). size obj))" by simp
next
  fix parse :: "string \<Rightarrow> date" and object_time :: "jv \<Rightarrow> date" and now :: int and obj :: jv
    and xs x
  assume "obj = JArr xs" and "x \<in> set xs"
  then show "((parse, object_time, now, x), parse, object_time, now, obj)
               \<in> measure (\<lambda>(parse, object_time, now, obj). size obj)"
    by (simp add: size_list_estimation' less_Suc_eq_le)
qed (auto dest: converted_prop_smaller)

text \<open>The \<^verbatim>\<open>try\<close> block of \<^verbatim>\<open>deserialize\<close>, and \<^verbatim>\<open>deserialize\<close> with its
  \<^verbatim>\<open>catch\<close>.\<close>

definition deserialize_try ::
  "(string \<Rightarrow> date) \<Rightarrow> (jv \<Rightarrow> date) \<Rightarrow> int \<Rightarrow> stored_string \<Rightarrow> exn + jv" where
  "deserialize_try parse object_time now str =
     (case JSON_parse str of
        Inl e \<Rightarrow> Inl e
      | Inr parsed \<Rightarrow> convertDates parse object_time now parsed)"

definition deserialize ::
  "(string \<Rightarrow> date) \<Rightarrow> (jv \<Rightarrow> date) \<Rightarrow> int \<Rightarrow> stored_string \<Rightarrow> jv" where
  "deserialize parse object_time now str =
     (case deserialize_try parse object_time now str of
        Inl err \<Rightarrow> empty_state
      | Inr result \<Rightarrow> result)"

subsection \<open>The persisted part of the store\<close>

text \<open>
  \<^verbatim>\<open>partialize\<close> keeps \<^verbatim>\<open>projects\<close> and \<^verbatim>\<open>currentProject\<close>; the objects have the
  keys of the literals that build them in \<^verbatim>\<open>createProject\<close> and \<^verbatim>\<open>createTask\<close>.
  \<open>written\<close> is the string that lands in the storage slot.
\<close>

fun date_value_jv :: "date_value \<Rightarrow> jv" where
  "date_value_jv (DateObj d) = JDate d"
| "date_value_jv (DateStr s) = JStr s"
| "date_value_jv (DateNum n) = JNum n"
| "date_value_jv NoDate = JUndefined"

definition dependency_jv :: "dependency \<Rightarrow> jv" where
  "dependency_jv d = JObj [(''taskId'', JStr (dep_taskId d)), (''type'', JStr (dep_type d))]"

definition task_jv :: "task \<Rightarrow> jv" where
  "task_jv t =
     JObj [(''id'', JStr (t_id t)),
           (''name'', JStr (t_name t)),
           (''description'', JStr (t_description t)),
           (''startDate'', date_value_jv (t_startDate t)),
           (''endDate'', date_value_jv (t_endDate t)),
           (''completion'', JNum (t_completion t)),
           (''dependencies'', JArr (map dependency_jv (t_dependencies t))),
           (''projectId'', JStr (t_projectId t)),
           (''createdAt'', date_value_jv (t_createdAt t)),
           (''updatedAt'', date_value_jv (t_updatedAt t))]"

definition project_jv :: "project \<Rightarrow> jv" where
  "project_jv p =
     JObj [(''id'', JStr (p_id p)),
           (''name'', JStr (p_name p)),
           (''description'', JStr (p_description p)),
           (''tasks'', JArr (map task_jv (p_tasks p))),
           (''createdAt'', date_value_jv (p_createdAt p)),
           (''updatedAt'', date_value_jv (p_updatedAt p))]"

definition partialize :: "store \<Rightarrow> jv" where
  "partialize state =
     JObj [(''projects'', JArr (map project_jv (projects state))),
           (''currentProject'',
              (case currentProject state of None \<Rightarrow> JNull | Some cur \<Rightarrow> project_jv cur))]"

definition written :: "json option \<Rightarrow> stored_string" where
  "written str = (case str of None \<Rightarrow> Malformed | Some j \<Rightarrow> Document j)"

subsection \<open>The start-up migration (migrateLegacyStorage)\<close>

text \<open>
  \<^verbatim>\<open>migrateLegacyStorage\<close> stands beside the \<^verbatim>\<open>App\<close> component, which runs it
  once when it mounts. It reads the storage slot, and removes it or leaves it.

  Reading a property throws on \<^verbatim>\<open>null\<close> and \<^verbatim>\<open>undefined\<close>; on a plain object it
  is the lookup; on any other value the names read here (\<^verbatim>\<open>state\<close>,
  \<^verbatim>\<open>projects\<close>, \<^verbatim>\<open>tasks\<close> and the four date fields) are undefined.
  \<^verbatim>\<open>for (const x of v)\<close> runs over the elements of an array or the characters of a
  string, and throws on anything else.
\<close>

fun read_prop :: "jv \<Rightarrow> string \<Rightarrow> exn + jv" where
  "read_prop JUndefined key = Inl (TypeError ''Cannot read properties of undefined'')"
| "read_prop JNull key = Inl (TypeError ''Cannot read properties of null'')"
| "read_prop (JObj kvs) key = Inr (get_own kvs key)"
| "read_prop _ key = Inr JUndefined"

fun iterate :: "jv \<Rightarrow> exn + jv list" where
  "iterate (JArr xs) = Inr xs"
| "iterate (JStr s) = Inr (map (\<lambda>c. JStr [c]) s)"
| "iterate _ = Inl (TypeError ''is not iterable'')"

text \<open>\<^verbatim>\<open>v && typeof v === 'string' && isNaN(new Date(v).getTime())\<close>\<close>

definition invalid_date_string :: "(string \<Rightarrow> date) \<Rightarrow> jv \<Rightarrow> bool" where
  "invalid_date_string parse v =
     (case v of JStr s \<Rightarrow> s \<noteq> [] \<and> isNaN_time (new_Date_str parse s) | _ \<Rightarrow> False)"

text \<open>
  The three nested \<^verbatim>\<open>for\<close> statements, with the flag \<^verbatim>\<open>needsMigration\<close> passed along and each
  \<^verbatim>\<open>break\<close> as an early result.
\<close>

fun scan_fields :: "(string \<Rightarrow> date) \<Rightarrow> jv \<Rightarrow> string list \<Rightarrow> bool \<Rightarrow> exn + bool" where
  "scan_fields parse obj [] needsMigration = Inr needsMigration"
| "scan_fields parse obj (field # rest) needsMigration =
     (case read_prop obj field of
        Inl e \<Rightarrow> Inl e
      | Inr v \<Rightarrow>
          if invalid_date_string parse v then Inr True
          else scan_fields parse obj rest needsMigration)"

fun scan_tasks :: "(string \<Rightarrow> date) \<Rightarrow> jv list \<Rightarrow> bool \<Rightarrow> exn + bool" where
  "scan_tasks parse [] needsMigration = Inr needsMigration"
| "scan_tasks parse (task # rest) needsMigration =
     (case scan_fields parse task [''startDate'', ''endDate'', ''createdAt'', ''updatedAt'']
             needsMigration of
        Inl e \<Rightarrow> Inl e
      | Inr needsMigration' \<Rightarrow>
          if needsMigration' then Inr True else scan_tasks parse rest needsMigration')"

fun scan_projects :: "(string \<Rightarrow> date) \<Rightarrow> jv list \<Rightarrow> bool \<Rightarrow> exn + bool" where
  "scan_projects parse [] needsMigration = Inr needsMigration"
| "scan_projects parse (project # rest) needsMigration =
     (case scan_fields parse project [''createdAt'', ''updatedAt''] needsMigration of
        Inl e \<Rightarrow> Inl e
      | Inr needsMigration1 \<Rightarrow>
          (case read_prop project ''tasks'' of
             Inl e \<Rightarrow> Inl e
           | Inr tasks \<Rightarrow>
               (case (if truthy tasks
                      then (case iterate tasks of
                              Inl e \<Rightarrow> Inl e
                            | Inr ts \<Rightarrow> scan_tasks parse ts needsMigration1)
                      else Inr needsMigration1) of
                  Inl e \<Rightarrow> Inl e
                | Inr needsMigration2 \<Rightarrow>
                    if needsMigration2 then Inr True
                    else scan_projects parse rest needsMigration2)))"

text \<open>The inner \<^verbatim>\<open>try\<close>: an exception while scanning sets the flag.\<close>

definition needs_migration :: "(string \<Rightarrow> date) \<Rightarrow> jv \<Rightarrow> bool" where
  "needs_migration parse projectList =
     (case iterate projectList of
        Inl validationError \<Rightarrow> True
      | Inr ps \<Rightarrow>
          (case scan_projects parse ps False of
             Inl validationError \<Rightarrow> True
           | Inr needsMigration \<Rightarrow> needsMigration))"

text \<open>What follows the parse, inside the outer \<^verbatim>\<open>try\<close>: the result tells whether the
  slot is removed.\<close>

definition migrate_parsed :: "(string \<Rightarrow> date) \<Rightarrow> jv \<Rightarrow> exn + bool" where
  "migrate_parsed parse parsed =
     (case read_prop parsed ''state'' of
        Inl e \<Rightarrow> Inl e
      | Inr state \<Rightarrow>
          if truthy state
          then (case read_prop state ''projects'' of
                  Inl e \<Rightarrow> Inl e
                | Inr projectList \<Rightarrow>
                    if truthy projectList then Inr (needs_migration parse projectList)
                    else Inr False)
          else Inr False)"

text \<open>
  The storage slot \<^verbatim>\<open>project-storage\<close> before and after the migration: \<open>None\<close> is
  an absent item; \<^verbatim>\<open>removeItem\<close> makes it absent.
\<close>

definition migrateLegacyStorage :: "(string \<Rightarrow> date) \<Rightarrow> stored_string option \<Rightarrow> stored_string option" where
  "migrateLegacyStorage parse storedData =
     (case storedData of
        None \<Rightarrow> None
      | Some EmptyString \<Rightarrow> Some EmptyString
      | Some str \<Rightarrow>
          (case JSON_parse str of
             Inl parseError \<Rightarrow> None
           | Inr parsed \<Rightarrow>
               (case migrate_parsed parse parsed of
                  Inl err \<Rightarrow> None
                | Inr remove \<Rightarrow> if remove then None else Some str)))"

text \<open>The date fields that the migration inspects, as a predicate on a parsed project.\<close>

definition has_invalid_date :: "(string \<Rightarrow> date) \<Rightarrow> jv \<Rightarrow> string list \<Rightarrow> bool" where
  "has_invalid_date parse obj fs =
     list_ex (\<lambda>field. invalid_date_string parse (get_own (own_props obj) field)) fs"

definition project_has_invalid_date :: "(string \<Rightarrow> date) \<Rightarrow> jv \<Rightarrow> bool" where
  "project_has_invalid_date parse project =
     (has_invalid_date parse project [''createdAt'', ''updatedAt''] \<or>
      (case get_own (own_props project) ''tasks'' of
         JArr ts \<Rightarrow>
           list_ex (\<lambda>task. has_invalid_date parse task
                             [''startDate'', ''endDate'', ''createdAt'', ''updatedAt'']) ts
       | _ \<Rightarrow> False))"

section \<open>Example states\<close>

text \<open>A store with one project, selected, created at time 0.\<close>

definition ex_project :: store where
  "ex_project = snd (createProject 0 ''p1'' ''Demo'' [] initial_store)"

text \<open>The same store after a task has been created in the project, and an empty
  \<^verbatim>\<open>updates\<close> object.\<close>

definition ex_task_data :: task_data where
  "ex_task_data =
     \<lparr>td_name = Some ''T1'', td_description = None,
      td_startDate = DateNum (Fin (10 * day_ms)), td_endDate = DateNum (Fin (20 * day_ms)),
      td_completion = Some (Fin 50), td_dependencies = None\<rparr>"

definition ex_with_task :: store where
  "ex_with_task = snd (createTask (\<lambda>s. None) 0 ''t1'' ex_task_data ex_project)"

definition no_updates :: task_updates where
  "no_updates =
     \<lparr>tu_id = None, tu_name = None, tu_description = None, tu_startDate = None,
      tu_endDate = None, tu_completion = None, tu_dependencies = None, tu_projectId = None,
      tu_createdAt = None\<rparr>"

text \<open>Operation sequences and the stores they build, used as concrete inputs below.\<close>

definition no_project_updates :: project_updates where
  "no_project_updates =
     \<lparr>pu_id = None, pu_name = None, pu_description = None, pu_tasks = None, pu_createdAt = None\<rparr>"

definition ex_rename_operations :: "operation list" where
  "ex_rename_operations =
     [CreateProject 0 ''a'' ''A'' [],
      CreateProject 1 ''b'' ''B'' [],
      UpdateProject 2 ''a'' (no_project_updates\<lparr>pu_id := Some ''b''\<rparr>)]"

definition ex_operations :: "operation list" where
  "ex_operations =
     [CreateProject 0 ''a'' ''A'' [],
      CreateTask 1 ''t1'' ex_task_data,
      UpdateProject 2 ''a'' (no_project_updates\<lparr>pu_name := Some ''A2''\<rparr>),
      CreateProject 3 ''b'' ''B'' [],
      SelectProject ''a'',
      DeleteTask 4 ''t1'']"

text \<open>The store that \<open>ex_operations\<close> builds, and its current project.\<close>

definition ex_store :: store where
  "ex_store = run (\<lambda>s. None) ex_operations initial_store"

definition ex_current :: project where
  "ex_current =
     \<lparr>p_id = ''a'', p_name = ''A2'', p_description = [], p_tasks = [],
      p_createdAt = DateObj (Some 0), p_updatedAt = DateObj (Some 4)\<rparr>"

definition finish_to_start :: string where
  "finish_to_start = ''finish-to-start''"

definition ex_cross_dependency :: store where
  "ex_cross_dependency =
     run (\<lambda>s. None)
       [CreateProject 0 ''pA'' ''A'' [],
        CreateTask 1 ''u'' ex_task_data,
        CreateProject 2 ''pB'' ''B'' [],
        CreateTask 3 ''t'' ex_task_data,
        SelectProject ''pA'',
        AddDependency 4 ''u'' \<lparr>dep_taskId = ''t'', dep_type = finish_to_start\<rparr>,
        SelectProject ''pB'']
       initial_store"

definition ex_dependent_tasks :: store where
  "ex_dependent_tasks =
     run (\<lambda>s. None)
       [CreateProject 0 ''p1'' ''Demo'' [],
        CreateTask 1 ''t1'' ex_task_data,
        CreateTask 2 ''t2'' ex_task_data,
        AddDependency 3 ''t2'' \<lparr>dep_taskId = ''t1'', dep_type = finish_to_start\<rparr>]
       initial_store"

text \<open>A store that holds a project with a task and has no project selected.\<close>

definition ex_none_selected :: store where
  "ex_none_selected =
     run (\<lambda>s. None)
       [CreateProject 0 ''a'' ''A'' [],
        CreateTask 1 ''t1'' ex_task_data,
        CreateProject 2 ''b'' ''B'' [],
        DeleteProject ''b'']
       initial_store"

text \<open>A task whose start is the last representable date and whose end is a malformed string.\<close>

definition ex_last_day_data :: task_data where
  "ex_last_day_data =
     \<lparr>td_name = Some ''T1'', td_description = None,
      td_startDate = DateNum (Fin 8640000000000000), td_endDate = DateStr ''also-bad'',
      td_completion = None, td_dependencies = None\<rparr>"

text \<open>
  A \<^verbatim>\<open>Date.parse\<close> that knows one string, and persisted payloads in the layout of the
  slot, \<^verbatim>\<open>{state: {projects, currentProject}, version}\<close>.
\<close>

definition epoch_only :: "string \<Rightarrow> date" where
  "epoch_only s = (if s = ''1970-01-01T00:00:00.000Z'' then Some 0 else None)"

definition ex_project_json :: "string \<Rightarrow> json" where
  "ex_project_json created =
     JsonObj [(''id'', JsonStr ''p1''), (''name'', JsonStr ''Demo''), (''description'', JsonStr []),
              (''tasks'', JsonArr []), (''createdAt'', JsonStr created),
              (''updatedAt'', JsonStr ''1970-01-01T00:00:00.000Z'')]"

definition ex_payload :: "json \<Rightarrow> json \<Rightarrow> stored_string" where
  "ex_payload listed current =
     Document (JsonObj [(''state'', JsonObj [(''projects'', JsonArr [listed]),
                                             (''currentProject'', current)]),
                        (''version'', JsonNum 0)])"

text \<open>The project of \<open>ex_with_task\<close> with the empty object in the place of every date.\<close>

definition emptied_task :: jv where
  "emptied_task =
     JObj [(''id'', JStr ''t1''), (''name'', JStr ''T1''), (''description'', JStr []),
           (''startDate'', JObj []), (''endDate'', JObj []), (''completion'', JNum (Fin 50)),
           (''dependencies'', JArr []), (''projectId'', JStr ''p1''),
           (''createdAt'', JObj []), (''updatedAt'', JObj [])]"

definition emptied_project :: jv where
  "emptied_project =
     JObj [(''id'', JStr ''p1''), (''name'', JStr ''Demo''), (''description'', JStr []),
           (''tasks'', JArr [emptied_task]), (''createdAt'', JObj []), (''updatedAt'', JObj [])]"

text \<open>A state that holds a \<^verbatim>\<open>BigInt\<close>.\<close>

definition ex_bigint_state :: jv where
  "ex_bigint_state =
     JObj [(''projects'', JArr []), (''currentProject'', JNull), (''revision'', JBigInt 1)]"

section \<open>Properties of task creation\<close>

lemma process_dates_start:
  "fst (process_dates parse now sd ed) = Some (policy_startDate parse now sd)"
  by (simp add: process_dates_def policy_startDate_def convert_task_date_def isNaN_time_def
        current_Date_def Let_def split: date_value.splits option.splits)

lemma process_dates_ordered:
  assumes "process_dates parse now sd ed = (Some a, Some b)"
  shows "a < b"
  using assms
  by (auto simp: process_dates_def Let_def isNaN_time_def date_le_def date_plus_def
        current_Date_def new_Date_def day_ms_def week_ms_def
        split: if_splits option.splits)

lemma process_dates_end:
  assumes "- max_time \<le> now" and "now + week_ms \<le> max_time"
      and "- max_time \<le> policy_startDate parse now sd"
      and "policy_startDate parse now sd + week_ms \<le> max_time"
  shows "snd (process_dates parse now sd ed) =
           Some (policy_endDate parse now (policy_startDate parse now sd) ed)"
proof -
  let ?S = "policy_startDate parse now sd"
  have start: "(if isNaN_time (convert_task_date parse (current_Date now) sd) then current_Date now
                else convert_task_date parse (current_Date now) sd) = Some ?S"
    using process_dates_start [of parse now sd ed]
    by (simp add: process_dates_def Let_def)
  have week: "date_plus (Some ?S) week_ms = Some (?S + week_ms)"
    using assms(3,4) by (simp add: date_plus_def new_Date_def week_ms_def abs_le_iff)
  have day: "date_plus (Some ?S) day_ms = Some (?S + day_ms)"
    using assms(3,4) by (simp add: date_plus_def new_Date_def week_ms_def day_ms_def abs_le_iff)
  have dflt: "new_Date (now + week_ms) = Some (now + week_ms)"
    using assms(1,2) by (simp add: new_Date_def week_ms_def abs_le_iff)
  show ?thesis
    unfolding process_dates_def Let_def start
    by (simp add: week day dflt policy_endDate_def convert_task_date_def isNaN_time_def
          date_le_def Let_def split: date_value.splits option.splits)
qed

text \<open>
  Where the dates have room, \<^verbatim>\<open>createTask\<close> follows the policy: with a project
  selected, and with the clock and the resolved start date in the range of dates and
  seven days or more before its upper end, the call is fulfilled whatever the two date
  inputs are, and the task it appends carries the dates of the policy.
\<close>

lemma createTask_follows_policy:
  assumes "currentProject s = Some cur"
      and "- max_time \<le> now" and "now + week_ms \<le> max_time"
      and "- max_time \<le> policy_startDate parse now (td_startDate taskData)"
      and "policy_startDate parse now (td_startDate taskData) + week_ms \<le> max_time"
  shows "fst (createTask parse now uuid taskData s) = Fulfilled \<and>
         (\<exists>newTask.
            currentProject (snd (createTask parse now uuid taskData s)) =
              Some (cur\<lparr>p_tasks := p_tasks cur @ [newTask],
                        p_updatedAt := DateObj (current_Date now)\<rparr>) \<and>
            t_startDate newTask =
              DateObj (Some (policy_startDate parse now (td_startDate taskData))) \<and>
            t_endDate newTask =
              DateObj (Some (policy_endDate parse now
                               (policy_startDate parse now (td_startDate taskData))
                               (td_endDate taskData))))"
proof -
  obtain a b where ab: "process_dates parse now (td_startDate taskData) (td_endDate taskData) = (a, b)"
    by (cases "process_dates parse now (td_startDate taskData) (td_endDate taskData)")
  have a: "a = Some (policy_startDate parse now (td_startDate taskData))"
    using process_dates_start [of parse now "td_startDate taskData" "td_endDate taskData"] ab
    by simp
  have b: "b = Some (policy_endDate parse now (policy_startDate parse now (td_startDate taskData))
                       (td_endDate taskData))"
    using process_dates_end [OF assms(2) assms(3) assms(4) assms(5), of "td_endDate taskData"] ab
    by simp
  let ?t = "\<lparr>t_id = uuid,
             t_name = or_string (td_name taskData) default_task_name,
             t_description = or_string (td_description taskData) [],
             t_startDate = DateObj a,
             t_endDate = DateObj b,
             t_completion = clamp_completion (td_completion taskData),
             t_dependencies = (case td_dependencies taskData of None \<Rightarrow> [] | Some ds \<Rightarrow> ds),
             t_projectId = p_id cur,
             t_createdAt = DateObj (current_Date now),
             t_updatedAt = DateObj (current_Date now)\<rparr>"
  have run: "createTask parse now uuid taskData s =
               (Fulfilled, add_task now ?t (s\<lparr>loading := True, error := None\<rparr>))"
    using assms(1)
    by (simp add: createTask_def createTask_body_def ab a b toISOString_check_def)
  have cur': "currentProject (add_task now ?t (s\<lparr>loading := True, error := None\<rparr>)) =
                Some (cur\<lparr>p_tasks := p_tasks cur @ [?t],
                          p_updatedAt := DateObj (current_Date now)\<rparr>)"
    using assms(1) by (simp add: add_task_def install_project_def)
  show ?thesis
    unfolding run fst_conv snd_conv cur'
    by (intro conjI exI [of _ ?t]) (simp_all add: a b)
qed

text \<open>
  C8. When no project is selected, \<^verbatim>\<open>createTask\<close> is rejected with the reason
  "no project selected" (\<open>no_project_selected\<close>, in French), the error of the store is
  the creation-failure message ending in that reason, the loading flag is reset, and the
  projects, the current project and every task are as before.
\<close>

theorem createTask_no_project:
  assumes "currentProject s = None"
  shows "fst (createTask parse now uuid taskData s) = Rejected (Error no_project_selected)
       \<and> error (snd (createTask parse now uuid taskData s)) =
           Some (create_task_failed @ no_project_selected)
       \<and> loading (snd (createTask parse now uuid taskData s)) = False
       \<and> projects (snd (createTask parse now uuid taskData s)) = projects s
       \<and> currentProject (snd (createTask parse now uuid taskData s)) = currentProject s
       \<and> store_tasks (snd (createTask parse now uuid taskData s)) = store_tasks s"
  using assms by (simp add: createTask_def createTask_body_def store_tasks_def)

theorem createTask_no_project_witness:
  "currentProject ex_none_selected = None
   \<and> map t_id (store_tasks ex_none_selected) = [''t1'']
   \<and> fst (createTask (\<lambda>s. None) 5 ''t2'' ex_task_data ex_none_selected) =
       Rejected (Error no_project_selected)
   \<and> loading (snd (createTask (\<lambda>s. None) 5 ''t2'' ex_task_data ex_none_selected)) = False
   \<and> projects (snd (createTask (\<lambda>s. None) 5 ''t2'' ex_task_data ex_none_selected)) =
       projects ex_none_selected
   \<and> map t_id (store_tasks (snd (createTask (\<lambda>s. None) 5 ''t2'' ex_task_data ex_none_selected)))
       = [''t1'']"
proof -
  have h: "currentProject ex_none_selected = None" by code_simp
  have t: "map t_id (store_tasks ex_none_selected) = [''t1'']" by code_simp
  show ?thesis
    using createTask_no_project [OF h, of "\<lambda>s. None" 5 "''t2''" ex_task_data] h t by simp
qed

text \<open>
  C2. The claim is that \<^verbatim>\<open>createTask\<close> never throws for malformed date input and
  gives an invalid end date the value of the start date plus seven days. At the upper
  end of the range of dates it does neither. The start date
  \<^verbatim>\<open>new Date(8640000000000000)\<close> is valid and the end date \<^verbatim>\<open>"also-bad"\<close> is not,
  so the policy asks for the start plus seven days; \<^verbatim>\<open>new Date\<close> clips that sum to
  an invalid date, which lines 213--227 do not test again, the comparison with it is
  false, \<^verbatim>\<open>endDate.toISOString()\<close> in the log statement throws a
  \<^verbatim>\<open>RangeError\<close> outside the inner \<^verbatim>\<open>try\<close>, and \<^verbatim>\<open>createTask\<close> is
  rejected without storing a task.
\<close>

theorem createTask_throws_at_last_date:
  "map_option p_name (currentProject ex_project) = Some ''Demo''
   \<and> policy_endDate (\<lambda>s. None) 0
         (policy_startDate (\<lambda>s. None) 0 (td_startDate ex_last_day_data))
         (td_endDate ex_last_day_data)
       = 8640000000000000 + week_ms
   \<and> process_dates (\<lambda>s. None) 0 (td_startDate ex_last_day_data) (td_endDate ex_last_day_data)
       = (Some 8640000000000000, None)
   \<and> fst (createTask (\<lambda>s. None) 0 ''t1'' ex_last_day_data ex_project)
       = Rejected (RangeError ''Invalid time value'')
   \<and> error (snd (createTask (\<lambda>s. None) 0 ''t1'' ex_last_day_data ex_project))
       = Some (create_task_failed @ ''Invalid time value'')
   \<and> store_tasks (snd (createTask (\<lambda>s. None) 0 ''t1'' ex_last_day_data ex_project)) = []"
  by code_simp

text \<open>
  What \<^verbatim>\<open>createTask\<close> keeps: when every task of the store has ordered dates, or a
  completion between 0 and 100, so has every task after the call, the new one included
  (a rejected call leaves the tasks as they are). The completion of \<open>task_data\<close> is
  an integer, \<^verbatim>\<open>NaN\<close> or missing; a fraction or a value that is not a number has no
  counterpart here, and the second lemma says nothing about it.
\<close>

lemma add_task_list_all:
  assumes "list_all P (store_tasks s)" and "P t"
  shows "list_all P (store_tasks (add_task now t s))"
proof (cases "currentProject s")
  case None
  then show ?thesis using assms(1) by (simp add: add_task_def)
next
  case (Some cur)
  then have cur: "list_all P (p_tasks cur)"
    using assms(1) by (simp add: store_tasks_def)
  have ps: "list_all (\<lambda>p. list_all P (p_tasks p)) (projects s)"
    using assms(1) by (auto simp: store_tasks_def list_all_iff)
  let ?u = "cur\<lparr>p_tasks := p_tasks cur @ [t], p_updatedAt := DateObj (current_Date now)\<rparr>"
  have "list_all (\<lambda>p. list_all P (p_tasks p))
          (map (\<lambda>p. if p_id p = p_id ?u then ?u else p) (projects s))"
    using ps cur assms(2) by (induction "projects s") (auto simp: list_all_iff)
  then show ?thesis
    using Some cur assms(2)
    by (auto simp: add_task_def install_project_def store_tasks_def list_all_iff
             split: if_splits)
qed

lemma store_tasks_flags [simp]:
  "store_tasks (s\<lparr>loading := l\<rparr>) = store_tasks s"
  "store_tasks (s\<lparr>error := e\<rparr>) = store_tasks s"
  by (simp_all add: store_tasks_def)

lemma clamp_completion_bounds:
  "\<exists>n. clamp_completion c = Fin n \<and> 0 \<le> n \<and> n \<le> 100"
  by (auto simp: clamp_completion_def or_zero_def math_min_def math_max_def
           split: option.splits number.splits)

lemma createTask_body_Inr:
  assumes "createTask_body parse now uuid taskData s1 = Inr s2"
  shows "\<exists>t x y. s2 = add_task now t s1 \<and> t_id t = uuid \<and>
           t_startDate t = DateObj (Some x) \<and> t_endDate t = DateObj (Some y) \<and>
           process_dates parse now (td_startDate taskData) (td_endDate taskData) = (Some x, Some y) \<and>
           t_completion t = clamp_completion (td_completion taskData)"
proof -
  obtain a b where ab: "process_dates parse now (td_startDate taskData) (td_endDate taskData) = (a, b)"
    by (cases "process_dates parse now (td_startDate taskData) (td_endDate taskData)")
  obtain cur where cur: "currentProject s1 = Some cur"
    using assms by (cases "currentProject s1") (simp_all add: createTask_body_def)
  obtain x where x: "a = Some x"
    using assms cur ab by (cases a) (simp_all add: createTask_body_def toISOString_check_def)
  obtain y where y: "b = Some y"
    using assms cur ab x by (cases b) (simp_all add: createTask_body_def toISOString_check_def)
  let ?t = "\<lparr>t_id = uuid,
             t_name = or_string (td_name taskData) default_task_name,
             t_description = or_string (td_description taskData) [],
             t_startDate = DateObj (Some x),
             t_endDate = DateObj (Some y),
             t_completion = clamp_completion (td_completion taskData),
             t_dependencies = (case td_dependencies taskData of None \<Rightarrow> [] | Some ds \<Rightarrow> ds),
             t_projectId = p_id cur,
             t_createdAt = DateObj (current_Date now),
             t_updatedAt = DateObj (current_Date now)\<rparr>"
  have "s2 = add_task now ?t s1"
    using assms cur ab x y by (simp add: createTask_body_def toISOString_check_def)
  then show ?thesis
    using ab x y by (intro exI [of _ ?t] exI [of _ x] exI [of _ y]) simp
qed

lemma createTask_keeps_dates_ordered:
  assumes "list_all dates_ordered (store_tasks s)"
  shows "list_all dates_ordered (store_tasks (snd (createTask parse now uuid taskData s)))"
proof (cases "createTask_body parse now uuid taskData (s\<lparr>loading := True, error := None\<rparr>)")
  case (Inl e)
  then show ?thesis using assms by (simp add: createTask_def)
next
  case (Inr s2)
  then obtain t x y where t:
    "s2 = add_task now t (s\<lparr>loading := True, error := None\<rparr>)"
    "t_startDate t = DateObj (Some x)" "t_endDate t = DateObj (Some y)"
    "process_dates parse now (td_startDate taskData) (td_endDate taskData) = (Some x, Some y)"
    using createTask_body_Inr by blast
  then have "dates_ordered t"
    using process_dates_ordered [OF t(4)] by (simp add: dates_ordered_def)
  then have "list_all dates_ordered (store_tasks s2)"
    unfolding t(1) using assms by (intro add_task_list_all) simp_all
  then show ?thesis
    using Inr by (simp add: createTask_def)
qed

lemma createTask_keeps_completion_in_bounds:
  assumes "list_all completion_in_bounds (store_tasks s)"
  shows "list_all completion_in_bounds (store_tasks (snd (createTask parse now uuid taskData s)))"
proof (cases "createTask_body parse now uuid taskData (s\<lparr>loading := True, error := None\<rparr>)")
  case (Inl e)
  then show ?thesis using assms by (simp add: createTask_def)
next
  case (Inr s2)
  then obtain t where t:
    "s2 = add_task now t (s\<lparr>loading := True, error := None\<rparr>)"
    "t_completion t = clamp_completion (td_completion taskData)"
    using createTask_body_Inr by blast
  obtain n where n: "clamp_completion (td_completion taskData) = Fin n" "0 \<le> n" "n \<le> 100"
    using clamp_completion_bounds by blast
  have "completion_in_bounds t"
    using t(2) n by (simp add: completion_in_bounds_def)
  then have "list_all completion_in_bounds (store_tasks s2)"
    unfolding t(1) using assms by (intro add_task_list_all) simp_all
  then show ?thesis
    using Inr by (simp add: createTask_def)
qed

section \<open>Properties of task update\<close>

text \<open>
  C1. The claim is that after \<^verbatim>\<open>createTask\<close> or \<^verbatim>\<open>updateTask\<close> every
  task of the store has an end date strictly after its start date. \<^verbatim>\<open>updateTask\<close>
  converts the two dates of its \<^verbatim>\<open>updates\<close> and stores them without comparing
  them: on a task running from day 10 to day 20, an update of the end date to day 1 is
  fulfilled and leaves the task (in \<^verbatim>\<open>projects\<close> and in \<^verbatim>\<open>currentProject\<close>)
  with its end before its start.
\<close>

theorem updateTask_reversed_dates:
  "fst (updateTask parse 1 ''t1'' (no_updates\<lparr>tu_endDate := Some (DateObj (Some day_ms))\<rparr>)
          ex_with_task) = Fulfilled
   \<and> map dates_ordered (store_tasks ex_with_task) = [True, True]
   \<and> map t_startDate
         (store_tasks (snd (updateTask parse 1 ''t1''
            (no_updates\<lparr>tu_endDate := Some (DateObj (Some day_ms))\<rparr>) ex_with_task)))
       = [DateObj (Some (10 * day_ms)), DateObj (Some (10 * day_ms))]
   \<and> map t_endDate
         (store_tasks (snd (updateTask parse 1 ''t1''
            (no_updates\<lparr>tu_endDate := Some (DateObj (Some day_ms))\<rparr>) ex_with_task)))
       = [DateObj (Some day_ms), DateObj (Some day_ms)]
   \<and> map dates_ordered
         (store_tasks (snd (updateTask parse 1 ''t1''
            (no_updates\<lparr>tu_endDate := Some (DateObj (Some day_ms))\<rparr>) ex_with_task)))
       = [False, False]"
  by code_simp

text \<open>
  C5. The claim is that the completion of every task stays an integer between 0 and 100.
  \<^verbatim>\<open>updateTask\<close> spreads \<^verbatim>\<open>updates.completion\<close> into the task as it is: an
  update to 150 is fulfilled and stored.
\<close>

theorem updateTask_completion_unclamped:
  "fst (updateTask parse 1 ''t1'' (no_updates\<lparr>tu_completion := Some (Fin 150)\<rparr>) ex_with_task)
     = Fulfilled
   \<and> map t_completion (store_tasks ex_with_task) = [Fin 50, Fin 50]
   \<and> map t_completion
         (store_tasks (snd (updateTask parse 1 ''t1''
            (no_updates\<lparr>tu_completion := Some (Fin 150)\<rparr>) ex_with_task)))
       = [Fin 150, Fin 150]
   \<and> map completion_in_bounds
         (store_tasks (snd (updateTask parse 1 ''t1''
            (no_updates\<lparr>tu_completion := Some (Fin 150)\<rparr>) ex_with_task)))
       = [False, False]"
  by code_simp

section \<open>Properties of the dependency operations\<close>




text \<open>
  C4, as stated, fails for a task of another project: \<^verbatim>\<open>deleteTask\<close> rebuilds the
  current project only. Task \<open>u\<close> of project \<open>pA\<close> depends on task \<open>t\<close> of project
  \<open>pB\<close>; with \<open>pB\<close> selected, deleting \<open>t\<close> leaves the dependency of \<open>u\<close> in place.
\<close>

theorem deleteTask_other_project_counterexample:
  "fst (deleteTask 5 ''t'' ex_cross_dependency) = Fulfilled
   \<and> map (\<lambda>task. (t_id task, map dep_taskId (t_dependencies task)))
         (store_tasks (snd (deleteTask 5 ''t'' ex_cross_dependency))) = [(''u'', [''t''])]
   \<and> \<not> no_reference_to ''t'' (store_tasks (snd (deleteTask 5 ''t'' ex_cross_dependency)))"
  by code_simp

lemma no_reference_to_cleaned:
  "no_reference_to taskId
     (map (\<lambda>task. task\<lparr>t_dependencies :=
                     filter (\<lambda>dep. dep_taskId dep \<noteq> taskId) (t_dependencies task)\<rparr>)
        (filter (\<lambda>task. t_id task \<noteq> taskId) ts))"
  by (induction ts) (auto simp: no_reference_to_def list_all_iff)

text \<open>
  C4, as amended. With a project selected, \<^verbatim>\<open>deleteTask\<close> is fulfilled; in the rebuilt
  current project no task has the deleted id and no dependency entry refers to it; that
  project replaces the entries of \<^verbatim>\<open>projects\<close> with its id, and the other projects
  are unchanged.
\<close>

theorem deleteTask_cleans_current_project:
  assumes "currentProject s = Some cur"
  shows "fst (deleteTask now taskId s) = Fulfilled
       \<and> (\<exists>cur'. currentProject (snd (deleteTask now taskId s)) = Some cur'
                \<and> p_id cur' = p_id cur
                \<and> no_reference_to taskId (p_tasks cur')
                \<and> projects (snd (deleteTask now taskId s)) =
                    map (\<lambda>p. if p_id p = p_id cur then cur' else p) (projects s))"
  using assms
  by (simp add: deleteTask_def install_project_def Let_def no_reference_to_cleaned)

theorem deleteTask_cleans_current_project_witness:
  "map_option p_id (currentProject ex_dependent_tasks) = Some ''p1''
   \<and> map (\<lambda>task. (t_id task, map dep_taskId (t_dependencies task))) (current_tasks ex_dependent_tasks)
        = [(''t1'', []), (''t2'', [''t1''])]
   \<and> fst (deleteTask 4 ''t1'' ex_dependent_tasks) = Fulfilled
   \<and> map (\<lambda>task. (t_id task, map dep_taskId (t_dependencies task)))
        (store_tasks (snd (deleteTask 4 ''t1'' ex_dependent_tasks))) = [(''t2'', []), (''t2'', [])]"
proof -
  obtain cur where h: "currentProject ex_dependent_tasks = Some cur"
    by (cases "currentProject ex_dependent_tasks") (simp_all, code_simp)
  have a: "map_option p_id (currentProject ex_dependent_tasks) = Some ''p1''" by code_simp
  have b: "map (\<lambda>task. (t_id task, map dep_taskId (t_dependencies task))) (current_tasks ex_dependent_tasks)
        = [(''t1'', []), (''t2'', [''t1''])]" by code_simp
  have c: "map (\<lambda>task. (t_id task, map dep_taskId (t_dependencies task)))
        (store_tasks (snd (deleteTask 4 ''t1'' ex_dependent_tasks))) = [(''t2'', []), (''t2'', [])]"
    by code_simp
  show ?thesis
    using deleteTask_cleans_current_project [OF h, of 4 "''t1''"] a b c by simp
qed

section \<open>The current project and the list of projects\<close>

lemma filter_same_id:
  "distinct (map f xs) \<Longrightarrow> x \<in> set xs \<Longrightarrow> filter (\<lambda>y. f y = f x) xs = [x]"
proof (induction xs)
  case Nil
  then show ?case by simp
next
  case (Cons a xs)
  show ?case
  proof (cases "a = x")
    case True
    have "filter (\<lambda>y. f y = f x) xs = []"
      using Cons.prems(1) True by (simp add: filter_empty_conv) (metis imageI)
    then show ?thesis using True by simp
  next
    case False
    then have "x \<in> set xs" using Cons.prems(2) by simp
    moreover have "f a \<noteq> f x" using Cons.prems(1) calculation by auto
    ultimately show ?thesis using Cons by simp
  qed
qed

lemma store_inv_in_sync: "store_inv s \<Longrightarrow> current_in_sync s"
  by (auto simp: store_inv_def current_in_sync_def filter_same_id split: option.splits)

lemma map_replace_ids:
  "map p_id (map (\<lambda>p. if p_id p = p_id u then u else p) ps) = map p_id ps"
  by (induction ps) auto

lemma install_project_inv:
  assumes "store_inv s" and "currentProject s = Some cur" and "p_id u = p_id cur"
  shows "store_inv (install_project u s)"
proof -
  have "cur \<in> set (projects s)"
    using assms(1,2) by (simp add: store_inv_def)
  then have mem: "u \<in> set (map (\<lambda>p. if p_id p = p_id u then u else p) (projects s))"
    using assms(3) by (auto simp: image_iff intro!: bexI [of _ cur])
  have dist: "distinct (map p_id (map (\<lambda>p. if p_id p = p_id u then u else p) (projects s)))"
    using assms(1) unfolding map_replace_ids by (simp add: store_inv_def)
  show ?thesis
    unfolding store_inv_def install_project_def Let_def
    using mem dist by simp
qed

lemma store_inv_flags [simp]:
  "store_inv (s\<lparr>loading := l\<rparr>) = store_inv s"
  "store_inv (s\<lparr>error := e\<rparr>) = store_inv s"
  by (simp_all add: store_inv_def split: option.splits)

lemma createTask_inv: "store_inv s \<Longrightarrow> store_inv (snd (createTask parse now uuid taskData s))"
  by (cases "currentProject s")
     (auto simp: createTask_def createTask_body_def add_task_def Let_def
           intro!: install_project_inv split: prod.splits sum.splits)


lemma updateTask_inv: "store_inv s \<Longrightarrow> store_inv (snd (updateTask parse now taskId updates s))"
  by (cases "currentProject s")
     (auto simp: updateTask_def Let_def intro!: install_project_inv)

lemma deleteTask_inv: "store_inv s \<Longrightarrow> store_inv (snd (deleteTask now taskId s))"
  by (cases "currentProject s")
     (auto simp: deleteTask_def Let_def intro!: install_project_inv)

lemma addDependency_inv: "store_inv s \<Longrightarrow> store_inv (snd (addDependency now taskId dep s))"
  by (cases "currentProject s")
     (auto simp: addDependency_def Let_def intro!: install_project_inv)

lemma removeDependency_inv:
  "store_inv s \<Longrightarrow> store_inv (snd (removeDependency now taskId dependencyTaskId s))"
  by (cases "currentProject s")
     (auto simp: removeDependency_def Let_def intro!: install_project_inv)

lemma createProject_inv:
  "store_inv s \<Longrightarrow> uuid \<notin> set (map p_id (projects s)) \<Longrightarrow>
   store_inv (snd (createProject now uuid name description s))"
  by (auto simp: createProject_def store_inv_def Let_def split: option.splits)

lemma deleteProject_inv: "store_inv s \<Longrightarrow> store_inv (snd (deleteProject projectId s))"
  by (auto simp: deleteProject_def store_inv_def Let_def distinct_map_filter split: option.splits)

lemma find_in_set: "find P xs = Some x \<Longrightarrow> x \<in> set xs"
  by (induction xs) (auto split: if_splits)

lemma selectProject_inv: "store_inv s \<Longrightarrow> store_inv (selectProject projectId s)"
  by (auto simp: selectProject_def store_inv_def dest: find_in_set split: option.splits)

lemma merge_project_id:
  "(case pu_id updates of None \<Rightarrow> True | Some newId \<Rightarrow> newId = p_id p) \<Longrightarrow>
   p_id (merge_project now p updates) = p_id p"
  by (simp add: merge_project_def split: option.splits)

lemma updateProject_inv:
  assumes "store_inv s"
      and "case pu_id updates of None \<Rightarrow> True | Some newId \<Rightarrow> newId = projectId"
  shows "store_inv (snd (updateProject now projectId updates s))"
proof -
  let ?ps = "map (\<lambda>project. if p_id project = projectId then merge_project now project updates
                            else project) (projects s)"
  let ?c = "case currentProject s of
              None \<Rightarrow> None
            | Some cur \<Rightarrow>
                if p_id cur = projectId then find (\<lambda>p. p_id p = projectId) ?ps else Some cur"
  have ids: "map p_id ?ps = map p_id (projects s)"
    using assms(2) by (induction "projects s") (auto simp: merge_project_id)
  have dist: "distinct (map p_id ?ps)"
    using assms(1) unfolding ids by (simp add: store_inv_def)
  have cur: "case ?c of None \<Rightarrow> True | Some c \<Rightarrow> c \<in> set ?ps"
  proof (cases "currentProject s")
    case None
    then show ?thesis by simp
  next
    case (Some cur)
    show ?thesis
    proof (cases "p_id cur = projectId")
      case True
      then show ?thesis
        using Some by (auto dest: find_in_set split: option.splits)
    next
      case False
      have "cur \<in> set (projects s)"
        using assms(1) Some by (simp add: store_inv_def)
      then have "cur \<in> set ?ps"
        using False by (auto simp: image_iff intro!: bexI [of _ cur])
      then show ?thesis
        using Some False by simp
    qed
  qed
  have p: "projects (snd (updateProject now projectId updates s)) = ?ps"
    by (simp add: updateProject_def Let_def)
  have c: "currentProject (snd (updateProject now projectId updates s)) = ?c"
    by (simp add: updateProject_def Let_def split: option.splits)
  show ?thesis
    unfolding store_inv_def p c by (intro conjI dist cur)
qed

lemma apply_operation_inv:
  "store_inv s \<Longrightarrow> fresh_uuid operation s \<Longrightarrow> keeps_project_id operation \<Longrightarrow>
   store_inv (apply_operation parse operation s)"
  by (cases operation)
     (simp_all add: createProject_inv updateProject_inv deleteProject_inv selectProject_inv
        createTask_inv updateTask_inv deleteTask_inv addDependency_inv removeDependency_inv
        clearError_def)

lemma run_inv:
  "store_inv s \<Longrightarrow> fresh_uuids parse ops s \<Longrightarrow> list_all keeps_project_id ops \<Longrightarrow>
   store_inv (run parse ops s)"
  by (induction ops arbitrary: s) (simp_all add: apply_operation_inv)

text \<open>
  C9, as stated, fails when \<^verbatim>\<open>updateProject\<close> spreads an \<^verbatim>\<open>id\<close> over a project:
  after projects \<open>a\<close> and \<open>b\<close> are created, giving \<open>a\<close> the id \<open>b\<close> leaves two
  entries with the id of the current project.
\<close>

theorem current_project_in_sync_counterexample:
  "fresh_uuids (\<lambda>s. None) ex_rename_operations initial_store
   \<and> map p_id (projects (run (\<lambda>s. None) ex_rename_operations initial_store)) = [''b'', ''b'']
   \<and> map_option p_name (currentProject (run (\<lambda>s. None) ex_rename_operations initial_store)) = Some ''B''
   \<and> map p_name (filter (\<lambda>p. p_id p = ''b'') (projects (run (\<lambda>s. None) ex_rename_operations initial_store)))
        = [''A'', ''B'']
   \<and> \<not> current_in_sync (run (\<lambda>s. None) ex_rename_operations initial_store)"
  by code_simp

lemma store_inv_installed:
  "store_inv s \<Longrightarrow> currentProject s = Some p \<Longrightarrow> installed p s"
  using store_inv_in_sync [of s] by (simp add: installed_def current_in_sync_def)

lemma find_updated:
  assumes "distinct (map p_id ps)" and "cur \<in> set ps" and "p_id (g cur) = p_id cur"
  shows "find (\<lambda>p. p_id p = p_id cur) (map (\<lambda>p. if p_id p = p_id cur then g p else p) ps) =
           Some (g cur)"
  using assms
proof (induction ps)
  case Nil
  then show ?case by simp
next
  case (Cons a ps)
  show ?case
  proof (cases "p_id a = p_id cur")
    case True
    then have "a = cur"
      using Cons.prems(1,2) by (auto simp: image_iff)
    then show ?thesis using Cons.prems(3) by simp
  next
    case False
    then have "cur \<in> set ps" using Cons.prems(2) by auto
    then show ?thesis
      using Cons False by simp
  qed
qed

lemma updateProject_current:
  assumes "store_inv s" and "currentProject s = Some cur"
      and "keeps_project_id (UpdateProject now (p_id cur) updates)"
  shows "currentProject (snd (updateProject now (p_id cur) updates s)) =
           Some (merge_project now cur updates)"
proof -
  have "distinct (map p_id (projects s))" and "cur \<in> set (projects s)"
    using assms(1,2) by (simp_all add: store_inv_def)
  moreover have "p_id (merge_project now cur updates) = p_id cur"
    using assms(3) by (simp add: merge_project_id)
  ultimately have
    "find (\<lambda>p. p_id p = p_id cur)
       (map (\<lambda>p. if p_id p = p_id cur then merge_project now p updates else p) (projects s)) =
     Some (merge_project now cur updates)"
    by (rule find_updated)
  then show ?thesis
    using assms(2) by (simp add: updateProject_def Let_def)
qed

lemma createTask_current:
  assumes "currentProject s = Some cur"
      and "fst (createTask parse now uuid taskData s) = Fulfilled"
  shows "\<exists>newTask. t_id newTask = uuid \<and>
           currentProject (snd (createTask parse now uuid taskData s)) =
             Some (cur\<lparr>p_tasks := p_tasks cur @ [newTask],
                       p_updatedAt := DateObj (current_Date now)\<rparr>)"
proof (cases "createTask_body parse now uuid taskData (s\<lparr>loading := True, error := None\<rparr>)")
  case (Inl e)
  then show ?thesis using assms(2) by (simp add: createTask_def)
next
  case (Inr s2)
  then obtain t where t: "s2 = add_task now t (s\<lparr>loading := True, error := None\<rparr>)" "t_id t = uuid"
    using createTask_body_Inr by blast
  have "currentProject (snd (createTask parse now uuid taskData s)) =
          Some (cur\<lparr>p_tasks := p_tasks cur @ [t], p_updatedAt := DateObj (current_Date now)\<rparr>)"
    using Inr assms(1) by (simp add: createTask_def t(1) add_task_def install_project_def)
  then show ?thesis using t(2) by blast
qed

text \<open>
  C9, as amended. Let \<open>s\<close> be the store reached from the empty store by a sequence of
  operations in which \<^verbatim>\<open>uuidv4\<close> returns unused ids and no update gives a project
  another id. Then the current project of \<open>s\<close> is null or it is the one and only entry
  of \<^verbatim>\<open>projects\<close> with its id. And every operation that builds, selects or rebuilds a
  project installs that very object, as the current project and as the one and only
  entry of \<^verbatim>\<open>projects\<close> with its id: \<^verbatim>\<open>createProject\<close> with an unused id,
  \<^verbatim>\<open>selectProject\<close> of an id that is found, \<^verbatim>\<open>updateProject\<close> of the current
  project when it keeps the id, a fulfilled \<^verbatim>\<open>createTask\<close>, and
  \<^verbatim>\<open>updateTask\<close>, \<^verbatim>\<open>deleteTask\<close>, \<^verbatim>\<open>addDependency\<close> and
  \<^verbatim>\<open>removeDependency\<close> when a project is selected.
\<close>

theorem current_project_in_sync:
  assumes "s = run parse ops initial_store"
      and "fresh_uuids parse ops initial_store" and "list_all keeps_project_id ops"
  shows "current_in_sync s \<and>
    (uuid \<notin> set (map p_id (projects s)) \<longrightarrow>
       installed
         \<lparr>p_id = uuid, p_name = name, p_description = description, p_tasks = [],
          p_createdAt = DateObj (current_Date now), p_updatedAt = DateObj (current_Date now)\<rparr>
         (snd (createProject now uuid name description s))) \<and>
    (find (\<lambda>p. p_id p = projectId) (projects s) = Some selected \<longrightarrow>
       installed selected (selectProject projectId s)) \<and>
    (currentProject s = Some cur \<longrightarrow>
       (keeps_project_id (UpdateProject now (p_id cur) projectUpdates) \<longrightarrow>
          installed (merge_project now cur projectUpdates)
            (snd (updateProject now (p_id cur) projectUpdates s))) \<and>
       (fst (createTask parse now uuid taskData s) = Fulfilled \<longrightarrow>
          (\<exists>newTask. t_id newTask = uuid \<and>
             installed
               (cur\<lparr>p_tasks := p_tasks cur @ [newTask],
                    p_updatedAt := DateObj (current_Date now)\<rparr>)
               (snd (createTask parse now uuid taskData s)))) \<and>
       installed
         (cur\<lparr>p_tasks :=
                map (\<lambda>task. if t_id task = taskId
                             then merge_task now task (process_updates parse updates)
                             else task) (p_tasks cur),
              p_updatedAt := DateObj (current_Date now)\<rparr>)
         (snd (updateTask parse now taskId updates s)) \<and>
       installed
         (cur\<lparr>p_tasks :=
                map (\<lambda>task. task\<lparr>t_dependencies :=
                               filter (\<lambda>dep. dep_taskId dep \<noteq> taskId) (t_dependencies task)\<rparr>)
                    (filter (\<lambda>task. t_id task \<noteq> taskId) (p_tasks cur)),
              p_updatedAt := DateObj (current_Date now)\<rparr>)
         (snd (deleteTask now taskId s)) \<and>
       installed
         (cur\<lparr>p_tasks := map (add_dependency_to_task now taskId dep) (p_tasks cur),
              p_updatedAt := DateObj (current_Date now)\<rparr>)
         (snd (addDependency now taskId dep s)) \<and>
       installed
         (cur\<lparr>p_tasks :=
                map (\<lambda>task. if t_id task \<noteq> taskId then task
                             else task\<lparr>t_dependencies :=
                                         filter (\<lambda>d. dep_taskId d \<noteq> dependencyTaskId)
                                                (t_dependencies task),
                                       t_updatedAt := DateObj (current_Date now)\<rparr>)
                    (p_tasks cur),
              p_updatedAt := DateObj (current_Date now)\<rparr>)
         (snd (removeDependency now taskId dependencyTaskId s)))"
proof -
  have "store_inv initial_store"
    by (simp add: store_inv_def initial_store_def)
  then have inv: "store_inv s"
    using assms by (simp add: run_inv)
  have sync: "current_in_sync s"
    using inv by (rule store_inv_in_sync)
  have create: "installed
         \<lparr>p_id = uuid, p_name = name, p_description = description, p_tasks = [],
          p_createdAt = DateObj (current_Date now), p_updatedAt = DateObj (current_Date now)\<rparr>
         (snd (createProject now uuid name description s))"
    if "uuid \<notin> set (map p_id (projects s))"
    using createProject_inv [OF inv that, where now = now and name = name and description = description]
    by (intro store_inv_installed) (simp_all add: createProject_def Let_def)
  have select: "installed selected (selectProject projectId s)"
    if "find (\<lambda>p. p_id p = projectId) (projects s) = Some selected"
    using selectProject_inv [OF inv, where projectId = projectId] that
    by (intro store_inv_installed) (simp_all add: selectProject_def)
  have tasks: "(keeps_project_id (UpdateProject now (p_id cur) projectUpdates) \<longrightarrow>
          installed (merge_project now cur projectUpdates)
            (snd (updateProject now (p_id cur) projectUpdates s))) \<and>
       (fst (createTask parse now uuid taskData s) = Fulfilled \<longrightarrow>
          (\<exists>newTask. t_id newTask = uuid \<and>
             installed
               (cur\<lparr>p_tasks := p_tasks cur @ [newTask],
                    p_updatedAt := DateObj (current_Date now)\<rparr>)
               (snd (createTask parse now uuid taskData s)))) \<and>
       installed
         (cur\<lparr>p_tasks :=
                map (\<lambda>task. if t_id task = taskId
                             then merge_task now task (process_updates parse updates)
                             else task) (p_tasks cur),
              p_updatedAt := DateObj (current_Date now)\<rparr>)
         (snd (updateTask parse now taskId updates s)) \<and>
       installed
         (cur\<lparr>p_tasks :=
                map (\<lambda>task. task\<lparr>t_dependencies :=
                               filter (\<lambda>dep. dep_taskId dep \<noteq> taskId) (t_dependencies task)\<rparr>)
                    (filter (\<lambda>task. t_id task \<noteq> taskId) (p_tasks cur)),
              p_updatedAt := DateObj (current_Date now)\<rparr>)
         (snd (deleteTask now taskId s)) \<and>
       installed
         (cur\<lparr>p_tasks := map (add_dependency_to_task now taskId dep) (p_tasks cur),
              p_updatedAt := DateObj (current_Date now)\<rparr>)
         (snd (addDependency now taskId dep s)) \<and>
       installed
         (cur\<lparr>p_tasks :=
                map (\<lambda>task. if t_id task \<noteq> taskId then task
                             else task\<lparr>t_dependencies :=
                                         filter (\<lambda>d. dep_taskId d \<noteq> dependencyTaskId)
                                                (t_dependencies task),
                                       t_updatedAt := DateObj (current_Date now)\<rparr>)
                    (p_tasks cur),
              p_updatedAt := DateObj (current_Date now)\<rparr>)
         (snd (removeDependency now taskId dependencyTaskId s))"
    if cur: "currentProject s = Some cur"
  proof (intro conjI impI)
    assume "keeps_project_id (UpdateProject now (p_id cur) projectUpdates)"
    then show "installed (merge_project now cur projectUpdates)
                 (snd (updateProject now (p_id cur) projectUpdates s))"
      using updateProject_inv [OF inv, where updates = projectUpdates and projectId = "p_id cur" and now = now]
            updateProject_current [OF inv cur, where now = now and updates = projectUpdates]
      by (intro store_inv_installed) simp_all
  next
    assume "fst (createTask parse now uuid taskData s) = Fulfilled"
    then obtain newTask where "t_id newTask = uuid"
      "currentProject (snd (createTask parse now uuid taskData s)) =
         Some (cur\<lparr>p_tasks := p_tasks cur @ [newTask],
                   p_updatedAt := DateObj (current_Date now)\<rparr>)"
      using createTask_current [OF cur] by blast
    then show "\<exists>newTask. t_id newTask = uuid \<and>
             installed
               (cur\<lparr>p_tasks := p_tasks cur @ [newTask],
                    p_updatedAt := DateObj (current_Date now)\<rparr>)
               (snd (createTask parse now uuid taskData s))"
      using createTask_inv [OF inv, where parse = parse and now = now and uuid = uuid and taskData = taskData]
      by (auto intro: store_inv_installed)
  next
    show "installed
         (cur\<lparr>p_tasks :=
                map (\<lambda>task. if t_id task = taskId
                             then merge_task now task (process_updates parse updates)
                             else task) (p_tasks cur),
              p_updatedAt := DateObj (current_Date now)\<rparr>)
         (snd (updateTask parse now taskId updates s))"
      using updateTask_inv [OF inv, where parse = parse and now = now and taskId = taskId and updates = updates] cur
      by (intro store_inv_installed) (simp_all add: updateTask_def install_project_def Let_def)
  next
    show "installed
         (cur\<lparr>p_tasks :=
                map (\<lambda>task. task\<lparr>t_dependencies :=
                               filter (\<lambda>dep. dep_taskId dep \<noteq> taskId) (t_dependencies task)\<rparr>)
                    (filter (\<lambda>task. t_id task \<noteq> taskId) (p_tasks cur)),
              p_updatedAt := DateObj (current_Date now)\<rparr>)
         (snd (deleteTask now taskId s))"
      using deleteTask_inv [OF inv, where now = now and taskId = taskId] cur
      by (intro store_inv_installed) (simp_all add: deleteTask_def install_project_def Let_def)
  next
    show "installed
         (cur\<lparr>p_tasks := map (add_dependency_to_task now taskId dep) (p_tasks cur),
              p_updatedAt := DateObj (current_Date now)\<rparr>)
         (snd (addDependency now taskId dep s))"
      using addDependency_inv [OF inv, where now = now and taskId = taskId and dep = dep] cur
      by (intro store_inv_installed) (simp_all add: addDependency_def install_project_def Let_def)
  next
    show "installed
         (cur\<lparr>p_tasks :=
                map (\<lambda>task. if t_id task \<noteq> taskId then task
                             else task\<lparr>t_dependencies :=
                                         filter (\<lambda>d. dep_taskId d \<noteq> dependencyTaskId)
                                                (t_dependencies task),
                                       t_updatedAt := DateObj (current_Date now)\<rparr>)
                    (p_tasks cur),
              p_updatedAt := DateObj (current_Date now)\<rparr>)
         (snd (removeDependency now taskId dependencyTaskId s))"
      using removeDependency_inv [OF inv, where now = now and taskId = taskId and dependencyTaskId = dependencyTaskId] cur
      by (intro store_inv_installed)
         (simp_all add: removeDependency_def install_project_def Let_def)
  qed
  show ?thesis
    using sync create select tasks by blast
qed

theorem current_project_in_sync_witness:
  "fresh_uuids (\<lambda>s. None) ex_operations initial_store
   \<and> list_all keeps_project_id ex_operations
   \<and> currentProject ex_store = Some ex_current
   \<and> current_in_sync ex_store
   \<and> installed (ex_current\<lparr>p_tasks := [], p_updatedAt := DateObj (Some 9)\<rparr>)
        (snd (deleteTask 9 ''t1'' ex_store))
   \<and> installed (merge_project 9 ex_current (no_project_updates\<lparr>pu_name := Some ''A3''\<rparr>))
        (snd (updateProject 9 ''a'' (no_project_updates\<lparr>pu_name := Some ''A3''\<rparr>) ex_store))
   \<and> fst (createTask (\<lambda>s. None) 9 ''t3'' ex_task_data ex_store) = Fulfilled
   \<and> map t_id (current_tasks (snd (createTask (\<lambda>s. None) 9 ''t3'' ex_task_data ex_store))) = [''t3'']"
proof -
  have h0: "ex_store = run (\<lambda>s. None) ex_operations initial_store"
    by (simp add: ex_store_def)
  have h1: "fresh_uuids (\<lambda>s. None) ex_operations initial_store" by code_simp
  have h2: "list_all keeps_project_id ex_operations" by code_simp
  have c: "currentProject ex_store = Some ex_current" by code_simp
  have d: "installed (ex_current\<lparr>p_tasks := [], p_updatedAt := DateObj (Some 9)\<rparr>)
        (snd (deleteTask 9 ''t1'' ex_store))" by code_simp
  have u: "installed (merge_project 9 ex_current (no_project_updates\<lparr>pu_name := Some ''A3''\<rparr>))
        (snd (updateProject 9 ''a'' (no_project_updates\<lparr>pu_name := Some ''A3''\<rparr>) ex_store))"
    by code_simp
  have t: "fst (createTask (\<lambda>s. None) 9 ''t3'' ex_task_data ex_store) = Fulfilled
     \<and> map t_id (current_tasks (snd (createTask (\<lambda>s. None) 9 ''t3'' ex_task_data ex_store))) = [''t3'']"
    by code_simp
  show ?thesis
    using current_project_in_sync [OF h0 h1 h2] h1 h2 c d u t by simp
qed

section \<open>Properties of the persistence layer\<close>

text \<open>Either walker turns a \<^verbatim>\<open>Date\<close>, valid or not, into the empty object.\<close>

lemma processForSerialization_Date: "processForSerialization now (JDate d) = JObj []"
  by (subst processForSerialization.simps) simp

lemma convertDates_Date: "convertDates parse object_time now (JDate d) = Inr (JObj [])"
  by (subst convertDates.simps) simp

text \<open>
  C3. The claim is that \<^verbatim>\<open>deserialize\<close> after \<^verbatim>\<open>serialize\<close> gives back the projects
  with equal fields, dates equal as instants. Both functions recurse into every property
  that is a truthy object, and a \<^verbatim>\<open>Date\<close> is one: spreading it gives \<^verbatim>\<open>{}\<close>. For
  the store with one project and one task, whose dates are all valid and ordered, the
  round trip returns the same projects with \<^verbatim>\<open>{}\<close> in the place of every date,
  whatever the clock readings, \<^verbatim>\<open>Date.parse\<close> and \<^verbatim>\<open>toISOString\<close> are
  (\<^verbatim>\<open>new Date({})\<close>, which the ordering step of \<^verbatim>\<open>convertDates\<close> evaluates, is
  an invalid date).
\<close>

theorem roundtrip_loses_dates:
  "deserialize parse (\<lambda>v. None) now' (written (serialize toISO now (partialize ex_with_task)))
     = JObj [(''projects'', JArr [emptied_project]), (''currentProject'', emptied_project)]
   \<and> map (\<lambda>p. get_own (own_props (project_jv p)) ''createdAt'') (projects ex_with_task)
       = [JDate (Some 0)]
   \<and> get_own (own_props emptied_project) ''createdAt'' = JObj []"
  by code_simp

text \<open>
  C7. When the \<^verbatim>\<open>try\<close> block of \<^verbatim>\<open>serialize\<close> throws, \<^verbatim>\<open>serialize\<close> returns the
  text of the empty state; when the \<^verbatim>\<open>try\<close> block of \<^verbatim>\<open>deserialize\<close> throws,
  \<^verbatim>\<open>deserialize\<close> returns the empty state. Neither lets the exception out (both are
  total), and the fallback text is the encoding of the empty state.
\<close>

theorem persistence_fallbacks:
  "(serialize_try toISO now state = Inl e \<longrightarrow>
      serialize toISO now state = Some empty_state_json) \<and>
   (deserialize_try parse object_time now' str = Inl e' \<longrightarrow>
      deserialize parse object_time now' str = empty_state) \<and>
   stringify toISO empty_state = Inr (Some empty_state_json)"
  by (simp add: serialize_def deserialize_def empty_state_def empty_state_json_def)

theorem persistence_fallbacks_witness:
  "serialize_try (\<lambda>t. []) 0 ex_bigint_state =
     Inl (TypeError ''Do not know how to serialize a BigInt'')
   \<and> serialize (\<lambda>t. []) 0 ex_bigint_state = Some empty_state_json
   \<and> deserialize_try (\<lambda>s. None) (\<lambda>v. None) 0 Malformed = Inl (SyntaxError ''Unexpected token'')
   \<and> deserialize (\<lambda>s. None) (\<lambda>v. None) 0 Malformed = empty_state"
proof -
  have s: "serialize_try (\<lambda>t. []) 0 ex_bigint_state =
             Inl (TypeError ''Do not know how to serialize a BigInt'')"
    by code_simp
  have d: "deserialize_try (\<lambda>s. None) (\<lambda>v. None) 0 Malformed =
             Inl (SyntaxError ''Unexpected token'')"
    by (simp add: deserialize_try_def)
  show ?thesis
    using persistence_fallbacks
            [of "\<lambda>t. []" 0 ex_bigint_state "TypeError ''Do not know how to serialize a BigInt''"
                "\<lambda>s. None" "\<lambda>v. None" 0 Malformed "SyntaxError ''Unexpected token''"]
          s d
    by simp
qed

section \<open>Properties of the start-up migration\<close>

lemma read_prop_Inr:
  "read_prop obj key = Inr v \<Longrightarrow> v = get_own (own_props obj) key"
  by (cases obj) (simp_all add: get_own_def)

lemma scan_fields_found:
  "needsMigration \<or> has_invalid_date parse obj fs \<Longrightarrow>
   scan_fields parse obj fs needsMigration \<noteq> Inr False"
proof (induction fs)
  case Nil
  then show ?case by (simp add: has_invalid_date_def)
next
  case (Cons f fs)
  then show ?case
    by (auto simp: has_invalid_date_def dest: read_prop_Inr split: sum.splits)
qed

lemma scan_tasks_found:
  "needsMigration \<or>
   list_ex (\<lambda>task. has_invalid_date parse task
                     [''startDate'', ''endDate'', ''createdAt'', ''updatedAt'']) ts \<Longrightarrow>
   scan_tasks parse ts needsMigration \<noteq> Inr False"
proof (induction ts arbitrary: needsMigration)
  case Nil
  then show ?case by (simp del: scan_fields.simps)
next
  case (Cons t ts)
  show ?case
  proof (cases "scan_fields parse t [''startDate'', ''endDate'', ''createdAt'', ''updatedAt''] needsMigration")
    case (Inl e)
    then show ?thesis by (simp del: scan_fields.simps)
  next
    case (Inr b)
    show ?thesis
    proof (cases b)
      case True
      then show ?thesis using Inr by (simp del: scan_fields.simps)
    next
      case False
      then have "\<not> (needsMigration \<or> has_invalid_date parse t
                   [''startDate'', ''endDate'', ''createdAt'', ''updatedAt''])"
        using Inr scan_fields_found
                [of needsMigration parse t "[''startDate'', ''endDate'', ''createdAt'', ''updatedAt'']"]
        by (auto simp del: scan_fields.simps)
      then have "list_ex (\<lambda>task. has_invalid_date parse task
                     [''startDate'', ''endDate'', ''createdAt'', ''updatedAt'']) ts"
        using Cons.prems by (simp del: scan_fields.simps)
      then show ?thesis
        using Cons.IH [of False] Inr False by (simp del: scan_fields.simps)
    qed
  qed
qed

lemma scan_projects_found:
  "needsMigration \<or> list_ex (project_has_invalid_date parse) ps \<Longrightarrow>
   scan_projects parse ps needsMigration \<noteq> Inr False"
proof (induction ps arbitrary: needsMigration)
  case Nil
  then show ?case by (simp del: scan_fields.simps scan_tasks.simps)
next
  case (Cons p ps)
  show ?case
  proof (cases "scan_fields parse p [''createdAt'', ''updatedAt''] needsMigration")
    case (Inl e)
    then show ?thesis by (simp del: scan_fields.simps scan_tasks.simps)
  next
    case f: (Inr nm1)
    show ?thesis
    proof (cases "read_prop p ''tasks''")
      case (Inl e)
      then show ?thesis using f by (simp del: scan_fields.simps scan_tasks.simps)
    next
      case t: (Inr tasks)
      then have tasks: "tasks = get_own (own_props p) ''tasks''"
        by (rule read_prop_Inr)
      let ?inner = "if truthy tasks
                    then (case iterate tasks of
                            Inl e \<Rightarrow> Inl e
                          | Inr ts \<Rightarrow> scan_tasks parse ts nm1)
                    else Inr nm1"
      show ?thesis
      proof (cases ?inner)
        case (Inl e)
        then show ?thesis using f t by (simp del: scan_fields.simps scan_tasks.simps)
      next
        case i: (Inr nm2)
        show ?thesis
        proof (cases nm2)
          case True
          then show ?thesis using f t i by (simp del: scan_fields.simps scan_tasks.simps)
        next
          case False
          have nm1: "\<not> nm1"
          proof
            assume "nm1"
            then have "?inner \<noteq> Inr False"
              using scan_tasks_found [of nm1 parse]
              by (auto simp del: scan_fields.simps scan_tasks.simps split: sum.splits)
            then show False using i False by (simp del: scan_fields.simps scan_tasks.simps)
          qed
          then have no_fields: "\<not> needsMigration"
            "\<not> has_invalid_date parse p [''createdAt'', ''updatedAt'']"
            using f scan_fields_found [of needsMigration parse p "[''createdAt'', ''updatedAt'']"]
            by (auto simp del: scan_fields.simps)
          have no_tasks: "\<not> (case tasks of
                       JArr ts \<Rightarrow>
                         list_ex (\<lambda>task. has_invalid_date parse task
                             [''startDate'', ''endDate'', ''createdAt'', ''updatedAt'']) ts
                     | _ \<Rightarrow> False)"
          proof (cases tasks)
            case (JArr ts)
            then have "scan_tasks parse ts nm1 = Inr False"
              using i False by (simp del: scan_fields.simps scan_tasks.simps)
            then show ?thesis
              using JArr scan_tasks_found [of nm1 parse ts]
              by (auto simp del: scan_tasks.simps)
          qed simp_all
          have "\<not> project_has_invalid_date parse p"
            using no_fields no_tasks tasks by (simp add: project_has_invalid_date_def)
          then have "list_ex (project_has_invalid_date parse) ps"
            using Cons.prems no_fields by (simp del: scan_fields.simps scan_tasks.simps)
          then show ?thesis
            using Cons.IH [of False] f t i False by (simp del: scan_fields.simps scan_tasks.simps)
        qed
      qed
    qed
  qed
qed

text \<open>
  C6, as stated, fails for the date fields of \<^verbatim>\<open>currentProject\<close>: the scan runs over
  \<^verbatim>\<open>parsed.state.projects\<close> only. A payload whose listed project has valid dates
  and whose current project has the \<^verbatim>\<open>createdAt\<close> string "not-a-date" is kept.
\<close>

theorem migrateLegacyStorage_current_project_counterexample:
  "invalid_date_string epoch_only (JStr ''not-a-date'')
   \<and> migrateLegacyStorage epoch_only
         (Some (ex_payload (ex_project_json ''1970-01-01T00:00:00.000Z'')
                           (ex_project_json ''not-a-date'')))
       = Some (ex_payload (ex_project_json ''1970-01-01T00:00:00.000Z'')
                          (ex_project_json ''not-a-date''))"
  by code_simp

text \<open>
  C6, as amended. When the stored string parses to an object whose \<^verbatim>\<open>state.projects\<close>
  is an array, and a \<^verbatim>\<open>createdAt\<close> or \<^verbatim>\<open>updatedAt\<close> of one of these projects, or
  a \<^verbatim>\<open>startDate\<close>, \<^verbatim>\<open>endDate\<close>, \<^verbatim>\<open>createdAt\<close> or \<^verbatim>\<open>updatedAt\<close> of a task
  in the \<^verbatim>\<open>tasks\<close> array of one of them, is a non-empty string that does not parse to
  a valid date, the migration removes the slot.
\<close>

theorem migrateLegacyStorage_removes_invalid_dates:
  assumes "JSON_parse str = Inr (JObj root)"
      and "get_own root ''state'' = JObj st"
      and "get_own st ''projects'' = JArr ps"
      and "list_ex (project_has_invalid_date parse) ps"
  shows "migrateLegacyStorage parse (Some str) = None"
proof -
  have "scan_projects parse ps False \<noteq> Inr False"
    using assms(4) scan_projects_found [of False parse ps] by simp
  then have "needs_migration parse (JArr ps)"
    by (auto simp: needs_migration_def split: sum.splits)
  then have "migrate_parsed parse (JObj root) = Inr True"
    using assms(2,3) by (simp add: migrate_parsed_def)
  then have m: "migrate_parsed parse (JObj root) = Inr True" .
  show ?thesis
  proof (cases str)
    case EmptyString
    then show ?thesis using assms(1) by simp
  next
    case Malformed
    then show ?thesis using assms(1) by simp
  next
    case (Document j)
    then have "json_value j = JObj root" using assms(1) by simp
    then show ?thesis
      unfolding migrateLegacyStorage_def Document
      by (simp add: m)
  qed
qed


theorem migrateLegacyStorage_removes_invalid_dates_witness:
  "list_ex (project_has_invalid_date epoch_only) [json_value (ex_project_json ''not-a-date'')]
   \<and> migrateLegacyStorage epoch_only
         (Some (ex_payload (ex_project_json ''not-a-date'') JsonNull)) = None"
proof -
  let ?root = "[(''state'', JObj [(''projects'', JArr [json_value (ex_project_json ''not-a-date'')]),
                                  (''currentProject'', JNull)]),
                (''version'', JNum (Fin 0))]"
  let ?st = "[(''projects'', JArr [json_value (ex_project_json ''not-a-date'')]),
              (''currentProject'', JNull)]"
  have h1: "JSON_parse (ex_payload (ex_project_json ''not-a-date'') JsonNull) = Inr (JObj ?root)"
    by (simp add: ex_payload_def)
  have h2: "get_own ?root ''state'' = JObj ?st"
    by (simp add: get_own_def)
  have h3: "get_own ?st ''projects'' = JArr [json_value (ex_project_json ''not-a-date'')]"
    by (simp add: get_own_def)
  have h4: "list_ex (project_has_invalid_date epoch_only) [json_value (ex_project_json ''not-a-date'')]"
    by code_simp
  show ?thesis
    using migrateLegacyStorage_removes_invalid_dates [OF h1 h2 h3 h4] h4 by simp
qed

end
